theory Spec2Isabelle
  imports Main "HOL-Library.Word" "HOL-Library.Sublist"
begin

unbundle bit_operations_syntax

section \<open>Bytes and big-endian packing\<close>

text \<open>
  A Python \<^verbatim>\<open>bytes\<close> value is a list of 8-bit words.  Python integers that
  count or index (lengths, sequence numbers, content types, values read by
  \<^verbatim>\<open>struct.unpack\<close> or \<^verbatim>\<open>int.from_bytes\<close>) never go negative in
  \<^verbatim>\<open>new-tls.py\<close> and are modelled as unbounded \<open>nat\<close>.
\<close>

type_synonym byte = "8 word"
type_synonym bytes = "byte list"

text \<open>
  Every exception the engine can raise is a value.  All \<^verbatim>\<open>assert\<close>s of the
  source raise Python's \<^verbatim>\<open>AssertionError\<close>; each assertion site gets a
  constructor of its own, named after the error kind the specification gives it.
\<close>

datatype error =
    StructError
  | UnexpectedContentType nat nat
  | UnexpectedHandshakeType nat nat
  | CiphertextLengthError
  | PaddingError
  | InvalidLengthError
  | OverflowError
  | ZeroModulusError
  | AuthenticationError
  | NoSessionKeys

text \<open>\<^verbatim>\<open>int.to_bytes(n, byteorder='big')\<close> on a value that fits.\<close>

fun be_bytes :: "nat \<Rightarrow> nat \<Rightarrow> bytes" where
  "be_bytes 0 v = []"
| "be_bytes (Suc n) v = be_bytes n (v div 256) @ [of_nat (v mod 256)]"

text \<open>\<^verbatim>\<open>int.from_bytes(bs, byteorder='big')\<close>.\<close>

definition from_bytes :: "bytes \<Rightarrow> nat" where
  "from_bytes bs = foldl (\<lambda>acc b. acc * 256 + unat b) 0 bs"

text \<open>
  \<^verbatim>\<open>struct.pack\<close> of one unsigned big-endian field of \<open>w\<close> bytes
  (\<^verbatim>\<open>B\<close>, \<^verbatim>\<open>H\<close>, \<^verbatim>\<open>I\<close>, \<^verbatim>\<open>Q\<close> are \<open>w = 1, 2, 4, 8\<close>): a value out of range
  raises \<^verbatim>\<open>struct.error\<close>.
\<close>

definition pack_uint :: "nat \<Rightarrow> nat \<Rightarrow> error + bytes" where
  "pack_uint w v = (if v < 256 ^ w then Inr (be_bytes w v) else Inl StructError)"

text \<open>\<^verbatim>\<open>x.to_bytes(n, byteorder='big')\<close>: \<^verbatim>\<open>OverflowError\<close> when \<open>x\<close> does not fit.\<close>

definition to_bytes :: "nat \<Rightarrow> nat \<Rightarrow> error + bytes" where
  "to_bytes n x = (if x < 256 ^ n then Inr (be_bytes n x) else Inl OverflowError)"

section \<open>The cryptographic library\<close>

text \<open>
  \<^verbatim>\<open>hmac\<close>, \<^verbatim>\<open>hashlib\<close> and \<^verbatim>\<open>Crypto.Cipher.AES\<close> are libraries outside the
  repository.  The engine takes them as a parameter: a record of pure functions.
  A SHA-256 digest is a 256-bit word; \<open>digest_bytes\<close> is its 32-byte big-endian
  form, which is what \<^verbatim>\<open>hmac.digest\<close> and \<^verbatim>\<open>hashlib.sha256(...).digest()\<close>
  return.  An AES-GCM cipher object built by \<^verbatim>\<open>AES.new(key, AES.MODE_GCM, nonce)\<close>
  and fed the associated data by \<^verbatim>\<open>update\<close> is the pair of functions
  \<open>encrypt_and_digest key nonce ad\<close> and \<open>decrypt_and_verify key nonce ad\<close>; the
  latter is \<open>None\<close> where the library raises \<^verbatim>\<open>ValueError\<close> (MAC check failed).
\<close>

record crypto =
  hmac_digest :: "bytes \<Rightarrow> bytes \<Rightarrow> 256 word"
  sha256_digest :: "bytes \<Rightarrow> 256 word"
  encrypt_and_digest :: "bytes \<Rightarrow> bytes \<Rightarrow> bytes \<Rightarrow> bytes \<Rightarrow> bytes \<times> bytes"
  decrypt_and_verify :: "bytes \<Rightarrow> bytes \<Rightarrow> bytes \<Rightarrow> bytes \<Rightarrow> bytes \<Rightarrow> bytes option"

definition digest_bytes :: "256 word \<Rightarrow> bytes" where
  "digest_bytes w = be_bytes 32 (unat w)"

section \<open>The pseudorandom function (lines 16-27)\<close>

definition hmac_sha256 :: "crypto \<Rightarrow> bytes \<Rightarrow> bytes \<Rightarrow> bytes" where
  "hmac_sha256 lib key msg = digest_bytes (hmac_digest lib key msg)"

lemma length_be_bytes: "length (be_bytes n v) = n"
  by (induction n arbitrary: v) simp_all

lemma length_hmac_sha256: "length (hmac_sha256 lib key msg) = 32"
  by (simp add: hmac_sha256_def digest_bytes_def length_be_bytes)

text \<open>
  The \<^verbatim>\<open>while len(result) < length\<close> loop, with the loop variables \<open>result\<close> and
  \<open>cur_a\<close> as arguments.  Each round appends 32 bytes, so the loop ends.
\<close>

function prf_loop :: "crypto \<Rightarrow> bytes \<Rightarrow> bytes \<Rightarrow> nat \<Rightarrow> bytes \<Rightarrow> bytes \<Rightarrow> bytes" where
  "prf_loop lib secret seed len result cur_a =
     (if length result < len
      then prf_loop lib secret seed len
             (result @ hmac_sha256 lib secret (hmac_sha256 lib secret cur_a @ seed))
             (hmac_sha256 lib secret cur_a)
      else result)"
  by pat_completeness auto
termination
  by (relation "measure (\<lambda>(lib, secret, seed, len, result, cur_a). len - length result)")
     (auto simp: length_hmac_sha256)

declare prf_loop.simps [simp del]

definition tls_prf :: "crypto \<Rightarrow> bytes \<Rightarrow> bytes \<Rightarrow> bytes \<Rightarrow> nat \<Rightarrow> bytes" where
  "tls_prf lib secret label seed len =
     take len (prf_loop lib secret (label @ seed) len [] (label @ seed))"


section \<open>Constants of the engine (lines 30-54)\<close>

text \<open>\<^verbatim>\<open>b'...'\<close> literals of ASCII text.\<close>

definition ascii :: "string \<Rightarrow> bytes" where
  "ascii cs = map of_char cs"

text \<open>
  \<^verbatim>\<open>struct.pack('>...', v1, v2, ...)\<close>: the fields as (width in bytes, value) pairs.
  A value that does not fit its field raises \<^verbatim>\<open>struct.error\<close>.
\<close>

fun struct_pack :: "(nat \<times> nat) list \<Rightarrow> error + bytes" where
  "struct_pack [] = Inr []"
| "struct_pack ((w, v) # fs) =
     (if v < 256 ^ w
      then (case struct_pack fs of Inl e \<Rightarrow> Inl e | Inr bs \<Rightarrow> Inr (be_bytes w v @ bs))
      else Inl StructError)"

text \<open>\<^verbatim>\<open>struct.unpack('>BHH', header)\<close> and \<^verbatim>\<open>struct.unpack('>I', bs)\<close>: a buffer of
  the wrong size raises \<^verbatim>\<open>struct.error\<close>.\<close>

definition unpack_BHH :: "bytes \<Rightarrow> error + (nat \<times> nat \<times> nat)" where
  "unpack_BHH header =
     (if length header = 5
      then Inr (from_bytes (take 1 header), from_bytes (take 2 (drop 1 header)),
                from_bytes (drop 3 header))
      else Inl StructError)"

definition unpack_I :: "bytes \<Rightarrow> error + nat" where
  "unpack_I bs = (if length bs = 4 then Inr (from_bytes bs) else Inl StructError)"

text \<open>A slice \<^verbatim>\<open>xs[a:b]\<close> with constant bounds \<open>0 \<le> a \<le> b\<close>.\<close>

definition slice :: "nat \<Rightarrow> nat \<Rightarrow> 'a list \<Rightarrow> 'a list" where
  "slice a b xs = take (b - a) (drop a xs)"

definition to_ad :: "nat \<Rightarrow> nat \<Rightarrow> nat \<Rightarrow> nat \<Rightarrow> error + bytes" where
  "to_ad seq_num tls_type tls_version tls_len =
     struct_pack [(8, seq_num), (1, tls_type), (2, tls_version), (2, tls_len)]"

text \<open>"Chosen by fair dice roll, guaranteed to be random": \<^verbatim>\<open>b'A' * length\<close>.\<close>

definition get_random_bytes :: "nat \<Rightarrow> bytes" where
  "get_random_bytes len = replicate len 0x41"

abbreviation KEY_LENGTH :: nat where "KEY_LENGTH \<equiv> 512"
abbreviation PKCS_PREFIX :: bytes where "PKCS_PREFIX \<equiv> [0x00, 0x02]"
abbreviation VERSION :: nat where "VERSION \<equiv> 0x0303"
abbreviation CIPHER_SUITE :: nat where "CIPHER_SUITE \<equiv> 0x9c"
abbreviation CHANGE_CIPHER_SPEC_CONTENT_TYPE :: nat where "CHANGE_CIPHER_SPEC_CONTENT_TYPE \<equiv> 0x14"
abbreviation ALERT_CONTENT_TYPE :: nat where "ALERT_CONTENT_TYPE \<equiv> 0x15"
abbreviation HANDSHAKE_CONTENT_TYPE :: nat where "HANDSHAKE_CONTENT_TYPE \<equiv> 0x16"
abbreviation DATA_CONTENT_TYPE :: nat where "DATA_CONTENT_TYPE \<equiv> 0x17"
abbreviation FINISHED_HANDSHAKE_TYPE :: nat where "FINISHED_HANDSHAKE_TYPE \<equiv> 0x14"

section \<open>The state of a \<^verbatim>\<open>TLS\<close> object (lines 56-88)\<close>

record tls_record =
  rec_content_type :: nat
  rec_version :: nat
  rec_data :: bytes

record handshake_record =
  hs_type :: nat
  hs_data :: bytes

record session_keys =
  master_secret :: bytes
  client_key :: bytes
  server_key :: bytes
  client_salt :: bytes
  server_salt :: bytes

text \<open>The private key: the two attributes \<^verbatim>\<open>priv_key.d\<close> and \<^verbatim>\<open>priv_key.n\<close> the
  engine reads.\<close>

record rsa_key =
  rsa_d :: nat
  rsa_n :: nat

text \<open>
  The socket is Python's: \<^verbatim>\<open>recv(k)\<close> returns at most \<open>k\<close> bytes, namely the first
  \<open>k\<close> of the bytes that have been received and not yet read, and fewer when
  fewer are there.  When none is there it waits for the next piece of the
  client's bytes and returns at most \<open>k\<close> bytes of that piece; when the client has
  closed the connection it returns \<^verbatim>\<open>b''\<close>.  How the client's bytes arrive is part of
  the input: \<open>inbound\<close> is what has been received and not yet read, \<open>arriving\<close> are
  the pieces that arrive later, in order (a piece with no bytes is no arrival and
  is passed over), and the client closes after the last.  \<open>outbound\<close> is what the
  server has written so far.
\<close>

record socket =
  inbound :: bytes
  arriving :: "bytes list"
  outbound :: bytes

record tls_state =
  sock :: socket
  priv_key :: rsa_key
  certs :: "bytes list"
  server_random :: bytes
  session_id :: bytes
  client_seq_num :: nat
  server_seq_num :: nat
  handshake_log :: bytes
  session_keys :: "session_keys option"

text \<open>
  A method of the object is a function from the state to a result and the state
  after it.  An exception leaves the object as the statements before the raise
  have made it, so the state is returned beside an error too.
\<close>

type_synonym 'a tls_m = "tls_state \<Rightarrow> (error + 'a) \<times> tls_state"

definition tls_return :: "'a \<Rightarrow> 'a tls_m" where
  "tls_return x s = (Inr x, s)"

definition tls_raise :: "error \<Rightarrow> 'a tls_m" where
  "tls_raise e s = (Inl e, s)"

definition tls_lift :: "error + 'a \<Rightarrow> 'a tls_m" where
  "tls_lift r s = (r, s)"

definition tls_bind :: "'a tls_m \<Rightarrow> ('a \<Rightarrow> 'b tls_m) \<Rightarrow> 'b tls_m" where
  "tls_bind m f s = (case m s of (Inl e, s') \<Rightarrow> (Inl e, s') | (Inr x, s') \<Rightarrow> f x s')"

definition tls_get :: "(tls_state \<Rightarrow> 'a) \<Rightarrow> 'a tls_m" where
  "tls_get f s = (Inr (f s), s)"

definition tls_modify :: "(tls_state \<Rightarrow> tls_state) \<Rightarrow> unit tls_m" where
  "tls_modify f s = (Inr (), f s)"

text \<open>\<^verbatim>\<open>self.session_keys.<field>\<close>: an \<^verbatim>\<open>AttributeError\<close> while the keys are \<^verbatim>\<open>None\<close>.\<close>

definition get_session_keys :: "session_keys tls_m" where
  "get_session_keys s =
     (case session_keys s of None \<Rightarrow> (Inl NoSessionKeys, s) | Some keys \<Rightarrow> (Inr keys, s))"

definition recv :: "nat \<Rightarrow> bytes tls_m" where
  "recv k s =
     (if k = 0 then (Inr [], s)
      else if inbound (sock s) \<noteq> []
      then (Inr (take k (inbound (sock s))),
            s\<lparr>sock := (sock s)\<lparr>inbound := drop k (inbound (sock s))\<rparr>\<rparr>)
      else (case dropWhile (\<lambda>piece. piece = []) (arriving (sock s)) of
              [] \<Rightarrow> (Inr [], s)
            | piece # pieces \<Rightarrow>
                (Inr (take k piece),
                 s\<lparr>sock := (sock s)\<lparr>inbound := drop k piece, arriving := pieces\<rparr>\<rparr>)))"

definition send :: "bytes \<Rightarrow> unit tls_m" where
  "send payload s = (Inr (), s\<lparr>sock := (sock s)\<lparr>outbound := outbound (sock s) @ payload\<rparr>\<rparr>)"

section \<open>The record layer (lines 90-99)\<close>

definition read_record :: "nat \<Rightarrow> tls_record tls_m" where
  "read_record expected_type =
     tls_bind (recv 5) (\<lambda>header.
     tls_bind (tls_lift (unpack_BHH header)) (\<lambda>(content_type, version, len).
     tls_bind (recv len) (\<lambda>dat.
     if content_type = expected_type
     then tls_return \<lparr>rec_content_type = content_type, rec_version = version, rec_data = dat\<rparr>
     else tls_raise (UnexpectedContentType content_type expected_type))))"

definition write_record :: "tls_record \<Rightarrow> unit tls_m" where
  "write_record record =
     tls_bind (tls_lift (struct_pack [(1, rec_content_type record), (2, rec_version record),
                                      (2, length (rec_data record))])) (\<lambda>header.
     send (header @ rec_data record))"

section \<open>AEAD record protection (lines 169-183)\<close>

definition encrypt :: "crypto \<Rightarrow> bytes \<Rightarrow> nat \<Rightarrow> bytes tls_m" where
  "encrypt lib dat tls_type =
     (let explicit_nonce = get_random_bytes 8 in
      tls_bind get_session_keys (\<lambda>keys.
      tls_bind (tls_get server_seq_num) (\<lambda>seq_num.
      tls_bind (tls_lift (to_ad seq_num tls_type VERSION (length dat))) (\<lambda>ad.
      case encrypt_and_digest lib (server_key keys) (server_salt keys @ explicit_nonce) ad dat of
        (ciphertext, tag) \<Rightarrow>
      tls_bind (tls_modify (\<lambda>s. s\<lparr>server_seq_num := server_seq_num s + 1\<rparr>)) (\<lambda>_.
      tls_return (explicit_nonce @ ciphertext @ tag))))))"

text \<open>
  The slices \<^verbatim>\<open>data[:8]\<close>, \<^verbatim>\<open>data[8:-16]\<close> and \<^verbatim>\<open>data[-16:]\<close>: a negative bound counts
  from the end and stops at the start of the data, which is what the truncating
  subtraction \<open>length dat - 16\<close> computes.
\<close>

definition decrypt :: "crypto \<Rightarrow> bytes \<Rightarrow> nat \<Rightarrow> nat \<Rightarrow> bytes tls_m" where
  "decrypt lib dat tls_type tls_version =
     tls_bind get_session_keys (\<lambda>keys.
     let nonce = client_salt keys @ take 8 dat;
         ciphertext = drop 8 (take (length dat - 16) dat);
         tag = drop (length dat - 16) dat in
     tls_bind (tls_get client_seq_num) (\<lambda>seq_num.
     tls_bind (tls_lift (to_ad seq_num tls_type tls_version (length ciphertext))) (\<lambda>ad.
     tls_bind (tls_modify (\<lambda>s. s\<lparr>client_seq_num := client_seq_num s + 1\<rparr>)) (\<lambda>_.
     case decrypt_and_verify lib (client_key keys) nonce ad ciphertext tag of
       None \<Rightarrow> tls_raise AuthenticationError
     | Some plaintext \<Rightarrow> tls_return plaintext))))"


section \<open>Handshake records (lines 101-120)\<close>

text \<open>
  \<^verbatim>\<open>header >> 24\<close> is \<open>drop_bit 24\<close>, \<^verbatim>\<open>header & 0xFF_FF_FF\<close> is \<open>take_bit 24\<close>, and
  \<^verbatim>\<open>(t << 24) | n\<close> is \<open>push_bit 24 t OR n\<close>.  The transcript \<^verbatim>\<open>handshake_log\<close> grows
  before the header is unpacked and the type asserted.
\<close>

definition read_handshake_record :: "crypto \<Rightarrow> nat \<Rightarrow> bool \<Rightarrow> handshake_record tls_m" where
  "read_handshake_record lib expected_type decrypt_flag =
     tls_bind (read_record HANDSHAKE_CONTENT_TYPE) (\<lambda>record.
     tls_bind (if decrypt_flag
               then decrypt lib (rec_data record) HANDSHAKE_CONTENT_TYPE (rec_version record)
               else tls_return (rec_data record)) (\<lambda>payload.
     tls_bind (tls_modify (\<lambda>s. s\<lparr>handshake_log := handshake_log s @ payload\<rparr>)) (\<lambda>_.
     let header_size = 4 in
     tls_bind (tls_lift (unpack_I (take header_size payload))) (\<lambda>header.
     let handshake_type = drop_bit 24 header in
     if handshake_type = expected_type
     then (let len = take_bit 24 header in
           tls_return \<lparr>hs_type = handshake_type,
                       hs_data = slice header_size (header_size + len) payload\<rparr>)
     else tls_raise (UnexpectedHandshakeType handshake_type expected_type)))))"

definition write_handshake_record :: "crypto \<Rightarrow> handshake_record \<Rightarrow> bool \<Rightarrow> unit tls_m" where
  "write_handshake_record lib record encrypt_flag =
     (let header = push_bit 24 (hs_type record) OR length (hs_data record) in
      tls_bind (tls_lift (struct_pack [(4, header)])) (\<lambda>packed.
      tls_bind (if encrypt_flag
                then encrypt lib (packed @ hs_data record) HANDSHAKE_CONTENT_TYPE
                else tls_return (packed @ hs_data record)) (\<lambda>payload.
      tls_bind (tls_modify (\<lambda>s. s\<lparr>handshake_log := handshake_log s @ payload\<rparr>)) (\<lambda>_.
      write_record \<lparr>rec_content_type = HANDSHAKE_CONTENT_TYPE, rec_version = VERSION,
                    rec_data = payload\<rparr>))))"

section \<open>Server messages (lines 122-141, 165-167)\<close>

definition get_server_hello :: "bytes tls_m" where
  "get_server_hello =
     tls_bind (tls_get server_random) (\<lambda>srv_random.
     tls_bind (tls_get session_id) (\<lambda>sid.
     tls_bind (tls_lift (struct_pack [(2, VERSION)])) (\<lambda>p_version.
     tls_bind (tls_lift (struct_pack [(1, length sid)])) (\<lambda>p_sid_len.
     tls_bind (tls_lift (struct_pack [(2, CIPHER_SUITE), (1, 0), (2, 0)])) (\<lambda>p_suite.
     tls_return (p_version @ srv_random @ p_sid_len @ sid @ p_suite))))))"

definition int16_to_int24_bytes :: "nat \<Rightarrow> error + bytes" where
  "int16_to_int24_bytes x =
     (case struct_pack [(2, x)] of Inl e \<Rightarrow> Inl e | Inr bs \<Rightarrow> Inr (0x00 # bs))"

text \<open>The list comprehension over \<^verbatim>\<open>self.certs\<close>, joined.\<close>

fun pack_certs :: "bytes list \<Rightarrow> error + bytes" where
  "pack_certs [] = Inr []"
| "pack_certs (cert # cs) =
     (case int16_to_int24_bytes (length cert) of
        Inl e \<Rightarrow> Inl e
      | Inr len_bytes \<Rightarrow>
          (case pack_certs cs of Inl e \<Rightarrow> Inl e | Inr packed \<Rightarrow> Inr (len_bytes @ cert @ packed)))"

definition get_certificate :: "bytes tls_m" where
  "get_certificate =
     tls_bind (tls_get certs) (\<lambda>cs.
     tls_bind (tls_lift (pack_certs cs)) (\<lambda>packed_certs.
     tls_bind (tls_lift (int16_to_int24_bytes (length packed_certs))) (\<lambda>len_bytes.
     tls_return (len_bytes @ packed_certs))))"

definition get_server_finished :: "crypto \<Rightarrow> bytes tls_m" where
  "get_server_finished lib =
     tls_bind (tls_get handshake_log) (\<lambda>log.
     let session_hash = digest_bytes (sha256_digest lib log) in
     tls_bind get_session_keys (\<lambda>keys.
     tls_return (tls_prf lib (master_secret keys) (ascii ''server finished'') session_hash 12)))"

section \<open>RSA key exchange and key schedule (lines 143-163)\<close>

text \<open>\<^verbatim>\<open>pow(base, exp, mod)\<close> on non-negative integers: \<^verbatim>\<open>ValueError\<close> when the modulus
  is 0.\<close>

definition py_pow :: "nat \<Rightarrow> nat \<Rightarrow> nat \<Rightarrow> error + nat" where
  "py_pow b e m = (if m = 0 then Inl ZeroModulusError else Inr ((b ^ e) mod m))"

text \<open>\<^verbatim>\<open>bs.find(bytes([b]), start)\<close>: the least index \<open>i \<ge> start\<close> with \<open>bs[i] = b\<close>,
  or \<open>-1\<close>.\<close>

fun find_from :: "byte \<Rightarrow> bytes \<Rightarrow> nat \<Rightarrow> int" where
  "find_from b [] k = -1"
| "find_from b (x # xs) k = (if x = b then int k else find_from b xs (Suc k))"

definition py_find :: "bytes \<Rightarrow> byte \<Rightarrow> nat \<Rightarrow> int" where
  "py_find bs b start = find_from b (drop start bs) start"

definition startswith :: "bytes \<Rightarrow> bytes \<Rightarrow> bool" where
  "startswith bs pre = (take (length pre) bs = pre)"

text \<open>Lines 148-150: the PKCS#1 v1.5 check of the decrypted block.  When \<^verbatim>\<open>find\<close>
  returns \<open>-1\<close> the slice starts at \<open>0\<close> and keeps the whole block.\<close>

definition unpad_premaster :: "bytes \<Rightarrow> error + bytes" where
  "unpad_premaster block =
     (if \<not> startswith block PKCS_PREFIX then Inl PaddingError
      else
      let premaster_secret = drop (nat (py_find block 0x00 (length PKCS_PREFIX) + 1)) block in
      if length premaster_secret \<noteq> 48 then Inl InvalidLengthError
      else Inr premaster_secret)"

definition derive_keys :: "crypto \<Rightarrow> bytes \<Rightarrow> bytes \<Rightarrow> session_keys tls_m" where
  "derive_keys lib encrypted_premaster_secret client_random =
     (if length encrypted_premaster_secret \<noteq> KEY_LENGTH then tls_raise CiphertextLengthError
      else
      tls_bind (tls_get priv_key) (\<lambda>key.
      tls_bind (tls_get server_random) (\<lambda>srv_random.
      tls_bind (tls_lift (py_pow (from_bytes encrypted_premaster_secret) (rsa_d key) (rsa_n key)))
        (\<lambda>decrypted.
      tls_bind (tls_lift (to_bytes KEY_LENGTH decrypted)) (\<lambda>block.
      tls_bind (tls_lift (unpad_premaster block)) (\<lambda>premaster_secret.
      let master_secret = tls_prf lib premaster_secret (ascii ''master secret'')
                            (client_random @ srv_random) 48;
          enc_key_length = 16;
          fixed_iv_length = 4;
          expanded_key_length = 2 * (enc_key_length + fixed_iv_length);
          key_block = tls_prf lib master_secret (ascii ''key expansion'')
                        (srv_random @ client_random) expanded_key_length in
      tls_return
        \<lparr>master_secret = master_secret,
         client_key = take enc_key_length key_block,
         server_key = slice enc_key_length (2 * enc_key_length) key_block,
         client_salt = slice (2 * enc_key_length) (2 * enc_key_length + fixed_iv_length) key_block,
         server_salt = drop (2 * enc_key_length + fixed_iv_length) key_block\<rparr>))))))"

section \<open>Application data (lines 185-194)\<close>

definition read :: "crypto \<Rightarrow> bytes tls_m" where
  "read lib =
     tls_bind (read_record DATA_CONTENT_TYPE) (\<lambda>record.
     decrypt lib (rec_data record) DATA_CONTENT_TYPE (rec_version record))"

text \<open>\<^verbatim>\<open>TLS.write\<close> (the bare name is an Isar keyword).\<close>

definition tls_write :: "crypto \<Rightarrow> bytes \<Rightarrow> unit tls_m" where
  "tls_write lib msg =
     tls_bind (encrypt lib msg DATA_CONTENT_TYPE) (\<lambda>payload.
     write_record \<lparr>rec_content_type = DATA_CONTENT_TYPE, rec_version = VERSION,
                   rec_data = payload\<rparr>)"

section \<open>The handshake (lines 75-88, 196-222)\<close>

text \<open>Lines 197-213: the hello messages and the key exchange.\<close>

definition shake_hands_keys :: "crypto \<Rightarrow> unit tls_m" where
  "shake_hands_keys lib =
     tls_bind (read_handshake_record lib 0x1 False) (\<lambda>client_hello_record.
     let client_hello = hs_data client_hello_record;
         client_random = slice 2 (2 + 32) client_hello in
     tls_bind get_server_hello (\<lambda>server_hello.
     tls_bind (write_handshake_record lib \<lparr>hs_type = 0x2, hs_data = server_hello\<rparr> False) (\<lambda>_.
     tls_bind get_certificate (\<lambda>certificate.
     tls_bind (write_handshake_record lib \<lparr>hs_type = 0xb, hs_data = certificate\<rparr> False) (\<lambda>_.
     tls_bind (write_handshake_record lib \<lparr>hs_type = 0xe, hs_data = []\<rparr> False) (\<lambda>_.
     tls_bind (read_handshake_record lib 0x10 False) (\<lambda>key_exchange.
     let encrypted_premaster_secret = drop 2 (hs_data key_exchange) in
     tls_bind (derive_keys lib encrypted_premaster_secret client_random) (\<lambda>keys.
     tls_modify (\<lambda>s. s\<lparr>session_keys := Some keys\<rparr>)))))))))"

text \<open>Lines 215-222: the change of cipher and the two Finished messages.\<close>

definition shake_hands_finished :: "crypto \<Rightarrow> unit tls_m" where
  "shake_hands_finished lib =
     tls_bind (read_record CHANGE_CIPHER_SPEC_CONTENT_TYPE) (\<lambda>_.
     tls_bind (read_handshake_record lib FINISHED_HANDSHAKE_TYPE True) (\<lambda>client_finished.
     tls_bind (write_record \<lparr>rec_content_type = CHANGE_CIPHER_SPEC_CONTENT_TYPE,
                             rec_version = VERSION, rec_data = [0x01]\<rparr>) (\<lambda>_.
     tls_bind (get_server_finished lib) (\<lambda>verify_data.
     write_handshake_record lib
       \<lparr>hs_type = FINISHED_HANDSHAKE_TYPE, hs_data = verify_data\<rparr> True))))"

definition shake_hands :: "crypto \<Rightarrow> unit tls_m" where
  "shake_hands lib = tls_bind (shake_hands_keys lib) (\<lambda>_. shake_hands_finished lib)"

text \<open>\<^verbatim>\<open>TLS.__init__\<close>: the fields as the constructor sets them, then the handshake.\<close>

definition initial_state :: "socket \<Rightarrow> rsa_key \<Rightarrow> bytes list \<Rightarrow> bytes \<Rightarrow> tls_state" where
  "initial_state sk key cs sid =
     \<lparr>sock = sk, priv_key = key, certs = cs, server_random = get_random_bytes 32,
      session_id = sid, client_seq_num = 0, server_seq_num = 0, handshake_log = [],
      session_keys = None\<rparr>"

definition TLS_init :: "crypto \<Rightarrow> socket \<Rightarrow> rsa_key \<Rightarrow> bytes list \<Rightarrow> bytes \<Rightarrow> (error + unit) \<times> tls_state" where
  "TLS_init lib sk key cs sid = shake_hands lib (initial_state sk key cs sid)"


section \<open>Sessions\<close>

text \<open>
  What the application layer does with an established object: a sequence of
  \<^verbatim>\<open>read()\<close> and \<^verbatim>\<open>write(msg)\<close> calls.  \<open>run_ops\<close> is the object after the calls; a
  call that raises leaves the object as it was when the exception left it, and the
  next call finds it so.
\<close>

datatype app_op = Read | Write bytes

fun run_op :: "crypto \<Rightarrow> tls_state \<Rightarrow> app_op \<Rightarrow> tls_state" where
  "run_op lib s Read = snd (read lib s)"
| "run_op lib s (Write msg) = snd (tls_write lib msg s)"

definition run_ops :: "crypto \<Rightarrow> app_op list \<Rightarrow> tls_state \<Rightarrow> tls_state" where
  "run_ops lib ops s = foldl (run_op lib) s ops"

fun op_reads :: "app_op \<Rightarrow> nat" where
  "op_reads Read = 1"
| "op_reads (Write msg) = 0"

fun op_writes :: "app_op \<Rightarrow> nat" where
  "op_writes Read = 0"
| "op_writes (Write msg) = 1"

text \<open>A method that leaves both sequence counters as they are; and a method that
  moves the client counter up by at most \<open>a\<close> and the server counter up by at most
  \<open>b\<close>, and neither down.\<close>

definition keeps_seq :: "'a tls_m \<Rightarrow> bool" where
  "keeps_seq m =
     (\<forall>s. client_seq_num (snd (m s)) = client_seq_num s
        \<and> server_seq_num (snd (m s)) = server_seq_num s)"

definition seq_step :: "nat \<Rightarrow> nat \<Rightarrow> 'a tls_m \<Rightarrow> bool" where
  "seq_step a b m =
     (\<forall>s. client_seq_num s \<le> client_seq_num (snd (m s))
        \<and> client_seq_num (snd (m s)) \<le> client_seq_num s + a
        \<and> server_seq_num s \<le> server_seq_num (snd (m s))
        \<and> server_seq_num (snd (m s)) \<le> server_seq_num s + b)"

section \<open>The specification's words, for comparison with the code\<close>

text \<open>
  The P_SHA256 stream of the specification: \<open>A 0 = label || seed\<close>,
  \<open>A i = HMAC(secret, A (i - 1))\<close>, and round \<open>i\<close> contributes
  \<open>HMAC(secret, A i || label || seed)\<close>; \<open>p_sha256 \<dots> m\<close> is rounds \<open>1 .. m\<close> joined.
  \<open>prf_rounds len\<close> is the number of rounds after which at least \<open>len\<close> bytes exist.
\<close>

fun prf_A :: "crypto \<Rightarrow> bytes \<Rightarrow> bytes \<Rightarrow> nat \<Rightarrow> bytes" where
  "prf_A lib secret a0 0 = a0"
| "prf_A lib secret a0 (Suc i) = hmac_sha256 lib secret (prf_A lib secret a0 i)"

definition p_sha256 :: "crypto \<Rightarrow> bytes \<Rightarrow> bytes \<Rightarrow> nat \<Rightarrow> bytes" where
  "p_sha256 lib secret a0 m =
     concat (map (\<lambda>i. hmac_sha256 lib secret (prf_A lib secret a0 i @ a0)) [1..<Suc m])"

definition prf_rounds :: "nat \<Rightarrow> nat" where
  "prf_rounds len = (len + 31) div 32"

text \<open>
  The key schedule of the specification: the master secret from the premaster
  secret and \<open>client_random || server_random\<close>, a key block of 40 bytes from the
  master secret and \<open>server_random || client_random\<close>, and the key block cut in
  order into the client write key (16), the server write key (16), the client
  write salt (4) and the server write salt (4).
\<close>

definition key_schedule :: "crypto \<Rightarrow> bytes \<Rightarrow> bytes \<Rightarrow> bytes \<Rightarrow> session_keys" where
  "key_schedule lib premaster_secret client_random srv_random =
     (let master = tls_prf lib premaster_secret (ascii ''master secret'')
                     (client_random @ srv_random) 48;
          key_block = tls_prf lib master (ascii ''key expansion'')
                        (srv_random @ client_random) 40
      in \<lparr>master_secret = master,
          client_key = take 16 key_block,
          server_key = take 16 (drop 16 key_block),
          client_salt = take 4 (drop 32 key_block),
          server_salt = take 4 (drop 36 key_block)\<rparr>)"

text \<open>
  What the engine relies on from AES-GCM, stated for the library parameter:
  the ciphertext is as long as the plaintext, the tag has 16 bytes,
  \<open>decrypt_and_verify\<close> returns the plaintext for the pair \<open>encrypt_and_digest\<close>
  produced (same key, nonce and associated data), and it rejects that pair with
  any one byte of the ciphertext or of the tag altered.
\<close>

definition aead_contract :: "crypto \<Rightarrow> bool" where
  "aead_contract lib =
     (\<forall>key nonce ad plaintext ciphertext tag.
        encrypt_and_digest lib key nonce ad plaintext = (ciphertext, tag) \<longrightarrow>
          length ciphertext = length plaintext \<and> length tag = 16
        \<and> decrypt_and_verify lib key nonce ad ciphertext tag = Some plaintext
        \<and> (\<forall>i b. i < length (ciphertext @ tag) \<and> b \<noteq> (ciphertext @ tag) ! i \<longrightarrow>
              decrypt_and_verify lib key nonce ad
                (take (length ciphertext) ((ciphertext @ tag)[i := b]))
                (drop (length ciphertext) ((ciphertext @ tag)[i := b])) = None))"

section \<open>A stand-in library for concrete runs\<close>

text \<open>
  Concrete runs of the engine need concrete library functions.  The stand-in below
  is not cryptography; it is a keyed checksum and a keyed XOR stream, cheap
  enough to evaluate inside the logic, and it has the shape of the real library:
  32-byte digests, a ciphertext as long as the plaintext, a 16-byte tag that
  \<open>decrypt_and_verify\<close> recomputes and compares.
\<close>

definition byte_sum :: "bytes \<Rightarrow> nat" where
  "byte_sum bs = sum_list (map unat bs)"

definition toy_hmac :: "bytes \<Rightarrow> bytes \<Rightarrow> 256 word" where
  "toy_hmac key msg =
     of_nat ((1 + byte_sum key + 3 * byte_sum msg + length msg) * (2 ^ 200 + 2 ^ 100 + 1))"

definition toy_sha256 :: "bytes \<Rightarrow> 256 word" where
  "toy_sha256 msg = of_nat ((7 + byte_sum msg + length msg) * (2 ^ 200 + 2 ^ 100 + 1))"

definition toy_stream :: "bytes \<Rightarrow> bytes \<Rightarrow> bytes \<Rightarrow> bytes" where
  "toy_stream key nonce bs = map (\<lambda>b. b XOR of_nat (byte_sum key + byte_sum nonce)) bs"

definition toy_tag :: "bytes \<Rightarrow> bytes \<Rightarrow> bytes \<Rightarrow> bytes \<Rightarrow> bytes" where
  "toy_tag key nonce ad ct =
     be_bytes 16 (byte_sum key + byte_sum nonce + byte_sum ad + byte_sum ct)"

definition toy_crypto :: crypto where
  "toy_crypto =
     \<lparr>hmac_digest = toy_hmac,
      sha256_digest = toy_sha256,
      encrypt_and_digest = (\<lambda>key nonce ad plaintext.
        (toy_stream key nonce plaintext, toy_tag key nonce ad (toy_stream key nonce plaintext))),
      decrypt_and_verify = (\<lambda>key nonce ad ciphertext tag.
        if tag = toy_tag key nonce ad ciphertext then Some (toy_stream key nonce ciphertext)
        else None)\<rparr>"

section \<open>Concrete inputs\<close>

text \<open>
  A private key whose exponent is 1 and whose modulus is \<open>256 ^ 512\<close>: the modular
  power leaves every 512-byte block as it is, so that a run can be followed by
  hand.  \<open>demo_block\<close> is a well-formed PKCS#1 v1.5 block: the prefix, 461 padding
  bytes \<open>0xFF\<close>, the separator, and a premaster secret of 48 bytes \<open>0x22\<close>.
\<close>

definition demo_key :: rsa_key where
  "demo_key = \<lparr>rsa_d = 1, rsa_n = 256 ^ 512\<rparr>"

definition demo_block :: bytes where
  "demo_block = PKCS_PREFIX @ replicate 461 0xFF @ [0x00] @ replicate 48 0x22"

text \<open>
  The session identifier of the script's main loop,
  \<^verbatim>\<open>b'\r\nset foo 0 0 12\r\nExploit Done\r\n'\<close>, and a fresh object, as \<^verbatim>\<open>__init__\<close>
  sets it before the handshake, with no certificates.  In \<open>demo_delivery bs pieces\<close>
  the bytes \<open>bs\<close> have been received when the handshake starts and \<open>pieces\<close> arrive
  later; in \<open>demo_state bs\<close> all the client's bytes \<open>bs\<close> have been received and the
  client has closed.
\<close>

definition demo_session_id :: bytes where
  "demo_session_id =
     [0x0D, 0x0A] @ ascii ''set foo 0 0 12'' @ [0x0D, 0x0A] @ ascii ''Exploit Done'' @ [0x0D, 0x0A]"

definition demo_delivery :: "bytes \<Rightarrow> bytes list \<Rightarrow> tls_state" where
  "demo_delivery bs pieces =
     initial_state \<lparr>inbound = bs, arriving = pieces, outbound = []\<rparr> demo_key [] demo_session_id"

definition demo_state :: "bytes \<Rightarrow> tls_state" where
  "demo_state bs = demo_delivery bs []"

text \<open>Session keys for runs of the record protection alone, and an object that
  holds them.\<close>

definition demo_keys :: session_keys where
  "demo_keys =
     \<lparr>master_secret = replicate 48 1, client_key = replicate 16 2, server_key = replicate 16 3,
      client_salt = replicate 4 4, server_salt = replicate 4 5\<rparr>"

definition demo_keyed_state :: "bytes \<Rightarrow> tls_state" where
  "demo_keyed_state bs = (demo_state bs)\<lparr>session_keys := Some demo_keys\<rparr>"

text \<open>The peer of \<open>demo_keyed_state\<close>: the same keys seen from the other end, so that
  what one side writes under its server keys the other reads under its client
  keys.\<close>

definition demo_peer_keys :: session_keys where
  "demo_peer_keys =
     \<lparr>master_secret = replicate 48 1, client_key = replicate 16 3, server_key = replicate 16 2,
      client_salt = replicate 4 5, server_salt = replicate 4 4\<rparr>"

definition demo_peer_state :: tls_state where
  "demo_peer_state = (demo_state [])\<lparr>session_keys := Some demo_peer_keys\<rparr>"

text \<open>
  A complete handshake against \<open>demo_key\<close> and the stand-in library.  The client
  sends a ClientHello with the random \<open>0x11\<close> repeated, a ClientKeyExchange whose
  encrypted premaster secret is \<open>demo_block\<close>, a ChangeCipherSpec, and a Finished
  record, properly protected under the client write key, whose verify data is
  twelve zero bytes.  \<open>demo_session_keys\<close> are the keys the server derives,
  \<open>demo_transcript\<close> is the transcript when the client's Finished arrives.
\<close>

definition demo_client_hello_msg :: bytes where
  "demo_client_hello_msg = [0x01, 0, 0, 34] @ [3, 3] @ replicate 32 0x11"

definition demo_key_exchange_msg :: bytes where
  "demo_key_exchange_msg = [0x10, 0, 2, 2] @ [2, 0] @ demo_block"

definition demo_client_finished_msg :: bytes where
  "demo_client_finished_msg = [0x14, 0, 0, 12] @ replicate 12 0"

definition demo_client_finished_payload :: bytes where
  "demo_client_finished_payload =
     [66, 66, 66, 66, 66, 66, 66, 66,
      206, 218, 218, 214, 218, 218, 218, 218, 218, 218, 218, 218, 218, 218, 218, 218,
      0, 0, 0, 0, 0, 0, 0, 0, 0, 0, 0, 0, 0, 0, 16, 150]"

definition demo_client_bytes :: bytes where
  "demo_client_bytes =
     [22, 3, 3, 0, 38] @ demo_client_hello_msg
     @ [22, 3, 3, 2, 6] @ demo_key_exchange_msg
     @ [20, 3, 3, 0, 1, 1]
     @ [22, 3, 3, 0, 40] @ demo_client_finished_payload"

definition demo_server_hello_msg :: bytes where
  "demo_server_hello_msg =
     [0x02, 0, 0, 72] @ [3, 3] @ replicate 32 0x41 @ [32] @ demo_session_id @ [0, 0x9C, 0, 0, 0]"

definition demo_certificate_msg :: bytes where
  "demo_certificate_msg = [0x0B, 0, 0, 3, 0, 0, 0]"

definition demo_hello_done_msg :: bytes where
  "demo_hello_done_msg = [0x0E, 0, 0, 0]"

text \<open>What the server writes after the ClientHello: ServerHello, Certificate and
  ServerHelloDone, a record each.\<close>

definition demo_first_flight :: bytes where
  "demo_first_flight =
     [22, 3, 3, 0, 76] @ demo_server_hello_msg @ [22, 3, 3, 0, 7] @ demo_certificate_msg
     @ [22, 3, 3, 0, 4] @ demo_hello_done_msg"

definition demo_transcript :: bytes where
  "demo_transcript =
     demo_client_hello_msg @ demo_server_hello_msg @ demo_certificate_msg @ demo_hello_done_msg
     @ demo_key_exchange_msg"

definition demo_session_keys :: session_keys where
  "demo_session_keys =
     \<lparr>master_secret =
        [0, 0, 0, 0, 0, 56, 51, 0, 0, 0, 0, 0, 0, 0, 0, 0, 0, 3, 131, 48, 0, 0, 0, 0,
         0, 0, 0, 0, 0, 0, 56, 51, 0, 0, 0, 0, 0, 58, 133, 0, 0, 0, 0, 0, 0, 0, 0, 0],
      client_key = [0, 0, 0, 0, 0, 51, 151, 0, 0, 0, 0, 0, 0, 0, 0, 0],
      server_key = [0, 3, 57, 112, 0, 0, 0, 0, 0, 0, 0, 0, 0, 0, 51, 151],
      client_salt = [0, 0, 0, 0],
      server_salt = [0, 55, 18, 0]\<rparr>"

text \<open>The server's Finished message of that handshake, the payload that carries it
  on the wire, and the object at a point of the handshake: the bytes still to
  come, the bytes written, the transcript, the keys and the two counters.\<close>

definition demo_server_finished_msg :: bytes where
  "demo_server_finished_msg = [0x14, 0, 0, 12] @ [0, 0, 0, 0, 0, 38, 59, 0, 0, 0, 0, 0]"

definition demo_server_finished_payload :: bytes where
  "demo_server_finished_payload =
     [65, 65, 65, 65, 65, 65, 65, 65,
      211, 199, 199, 203, 199, 199, 199, 199, 199, 225, 252, 199, 199, 199, 199, 199,
      0, 0, 0, 0, 0, 0, 0, 0, 0, 0, 0, 0, 0, 0, 16, 194]"

definition demo_progress ::
  "bytes \<Rightarrow> bytes \<Rightarrow> bytes \<Rightarrow> session_keys option \<Rightarrow> nat \<Rightarrow> nat \<Rightarrow> tls_state" where
  "demo_progress inb outb log keys cseq sseq =
     \<lparr>sock = \<lparr>inbound = inb, arriving = [], outbound = outb\<rparr>, priv_key = demo_key,
      certs = [],
      server_random = replicate 32 0x41, session_id = demo_session_id,
      client_seq_num = cseq, server_seq_num = sseq, handshake_log = log,
      session_keys = keys\<rparr>"

text \<open>The object when the key exchange has been read and the keys are set, with
  the client's ChangeCipherSpec and Finished records received; and the object at
  the end of the handshake.\<close>

definition demo_await_finished :: tls_state where
  "demo_await_finished =
     demo_progress ([20, 3, 3, 0, 1, 1] @ [22, 3, 3, 0, 40] @ demo_client_finished_payload)
       demo_first_flight demo_transcript (Some demo_session_keys) 0 0"

definition demo_established :: tls_state where
  "demo_established =
     demo_progress []
       (demo_first_flight @ [20, 3, 3, 0, 1, 1] @ [22, 3, 3, 0, 40] @ demo_server_finished_payload)
       (demo_transcript @ [0x14, 0, 0, 12, 0, 0, 0, 0, 0, 0, 0, 0, 0, 0, 0, 0]
        @ demo_server_finished_payload)
       (Some demo_session_keys) 1 1"

section \<open>Evaluation of the packing functions\<close>

text \<open>Rules that evaluate \<open>be_bytes\<close> and \<open>byte_sum\<close> on literals only: a symbolic
  argument is left alone.\<close>

lemma be_bytes_numeral:
  "be_bytes (numeral k) (numeral v) =
     be_bytes (pred_numeral k) (numeral v div 256) @ [of_nat (numeral v mod 256)]"
  "be_bytes (numeral k) 0 = be_bytes (pred_numeral k) 0 @ [0]"
  "be_bytes (numeral k) (Suc 0) = be_bytes (pred_numeral k) 0 @ [1]"
  by (simp_all add: numeral_eq_Suc [of k])

lemma replicate_eval: "replicate (numeral k) x = x # replicate (pred_numeral k) x"
  by (simp add: numeral_eq_Suc)

lemma byte_sum_simps:
  "byte_sum [] = 0"
  "byte_sum (b # bs) = unat b + byte_sum bs"
  "byte_sum (xs @ ys) = byte_sum xs + byte_sum ys"
  "byte_sum (replicate n b) = n * unat b"
  by (simp_all add: byte_sum_def sum_list_replicate)

lemma toy_crypto_sel [simp]:
  "hmac_digest toy_crypto = toy_hmac"
  "sha256_digest toy_crypto = toy_sha256"
  "encrypt_and_digest toy_crypto key nonce ad plaintext =
     (toy_stream key nonce plaintext, toy_tag key nonce ad (toy_stream key nonce plaintext))"
  "decrypt_and_verify toy_crypto key nonce ad ciphertext tag =
     (if tag = toy_tag key nonce ad ciphertext then Some (toy_stream key nonce ciphertext)
      else None)"
  by (simp_all add: toy_crypto_def)

lemmas toy_defs =
  toy_hmac_def toy_sha256_def toy_stream_def toy_tag_def byte_sum_simps
  hmac_sha256_def digest_bytes_def ascii_def be_bytes_numeral(1-3)

section \<open>The pseudorandom function\<close>

lemma p_sha256_0 [simp]: "p_sha256 lib secret a0 0 = []"
  by (simp add: p_sha256_def)

lemma p_sha256_Suc [simp]:
  "p_sha256 lib secret a0 (Suc m) =
     p_sha256 lib secret a0 m @ hmac_sha256 lib secret (prf_A lib secret a0 (Suc m) @ a0)"
  by (simp add: p_sha256_def)

lemma length_p_sha256: "length (p_sha256 lib secret a0 m) = 32 * m"
  by (induction m) (simp_all add: length_hmac_sha256)

lemma p_sha256_prefix:
  "m \<le> m' \<Longrightarrow> prefix (p_sha256 lib secret a0 m) (p_sha256 lib secret a0 m')"
proof (induction m')
  case 0
  then show ?case by simp
next
  case (Suc m')
  show ?case
  proof (cases "m = Suc m'")
    case True
    then show ?thesis by simp
  next
    case False
    with Suc.prems have "m \<le> m'" by simp
    then have "prefix (p_sha256 lib secret a0 m) (p_sha256 lib secret a0 m')"
      by (rule Suc.IH)
    then show ?thesis by simp
  qed
qed

text \<open>The loop invariant: after \<open>j\<close> rounds \<open>result\<close> is the first \<open>j\<close> rounds of the
  stream and \<open>cur_a\<close> is \<open>A j\<close>; the loop stops after \<open>prf_rounds len\<close> rounds.\<close>

lemma prf_loop_rounds:
  "result = p_sha256 lib secret seed j \<Longrightarrow> cur_a = prf_A lib secret seed j \<Longrightarrow>
   prf_loop lib secret seed len result cur_a = p_sha256 lib secret seed (max j (prf_rounds len))"
proof (induction lib secret seed len result cur_a arbitrary: j rule: prf_loop.induct)
  case (1 lib secret seed len result cur_a)
  show ?case
  proof (cases "length result < len")
    case True
    with "1.prems" have lt: "32 * j < len" by (simp add: length_p_sha256)
    then have r: "Suc j \<le> prf_rounds len" by (simp add: prf_rounds_def)
    have "prf_loop lib secret seed len result cur_a =
          prf_loop lib secret seed len
             (result @ hmac_sha256 lib secret (hmac_sha256 lib secret cur_a @ seed))
             (hmac_sha256 lib secret cur_a)"
      using True by (subst prf_loop.simps) simp
    also have "\<dots> = p_sha256 lib secret seed (max (Suc j) (prf_rounds len))"
      using True "1.prems" by (intro "1.IH") simp_all
    also have "max (Suc j) (prf_rounds len) = max j (prf_rounds len)"
      using r by simp
    finally show ?thesis .
  next
    case False
    with "1.prems" have "len \<le> 32 * j" by (simp add: length_p_sha256)
    then have "prf_rounds len \<le> j" by (simp add: prf_rounds_def)
    then have "max j (prf_rounds len) = j" by simp
    moreover have "prf_loop lib secret seed len result cur_a = result"
      using False by (subst prf_loop.simps) simp
    ultimately show ?thesis using "1.prems" by simp
  qed
qed

lemma tls_prf_rounds:
  "tls_prf lib secret label seed len =
     take len (p_sha256 lib secret (label @ seed) (prf_rounds len))"
  using prf_loop_rounds [of "[]" lib secret "label @ seed" 0 "label @ seed" len]
  by (simp add: tls_prf_def)

lemma take_p_sha256_more:
  assumes "prf_rounds len \<le> m"
  shows "take len (p_sha256 lib secret a0 m) = take len (p_sha256 lib secret a0 (prf_rounds len))"
proof -
  obtain zs where zs: "p_sha256 lib secret a0 m = p_sha256 lib secret a0 (prf_rounds len) @ zs"
    using p_sha256_prefix [OF assms, of lib secret a0] by (auto simp: prefix_def)
  have "len \<le> length (p_sha256 lib secret a0 (prf_rounds len))"
    by (simp add: length_p_sha256 prf_rounds_def)
  then show ?thesis by (simp add: zs)
qed

lemma tls_prf_stream:
  "prf_rounds len \<le> m \<Longrightarrow>
   tls_prf lib secret label seed len = take len (p_sha256 lib secret (label @ seed) m)"
  using take_p_sha256_more [of len m lib secret "label @ seed"] by (simp add: tls_prf_rounds)

lemma length_tls_prf [simp]: "length (tls_prf lib secret label seed len) = len"
  by (simp add: tls_prf_rounds length_p_sha256 prf_rounds_def)

lemma prf_rounds_mono: "a \<le> b \<Longrightarrow> prf_rounds a \<le> prf_rounds b"
  by (simp add: prf_rounds_def div_le_mono)

lemma tls_prf_take:
  assumes "n \<le> m"
  shows "tls_prf lib secret label seed n = take n (tls_prf lib secret label seed m)"
proof -
  from assms have "prf_rounds n \<le> prf_rounds m" by (rule prf_rounds_mono)
  then have "tls_prf lib secret label seed n =
             take n (p_sha256 lib secret (label @ seed) (prf_rounds m))"
    by (rule tls_prf_stream)
  also have "\<dots> = take n (take m (p_sha256 lib secret (label @ seed) (prf_rounds m)))"
    using assms by (simp add: min_absorb1)
  finally show ?thesis by (simp add: tls_prf_rounds)
qed

lemma toy_prf_value:
  "tls_prf toy_crypto [1, 2] (ascii ''master secret'') [3, 4] 40 =
     [0, 0, 0, 0, 0, 26, 61, 0, 0, 0, 0, 0, 0, 0, 0, 0, 0, 1, 163, 208, 0, 0,
      0, 0, 0, 0, 0, 0, 0, 0, 26, 61, 0, 0, 0, 0, 0, 21, 180, 0]"
  by (simp add: tls_prf_def prf_loop.simps toy_defs)

text \<open>
  C7.  For every secret, label, seed and length, \<open>tls_prf\<close> (the source's \<^verbatim>\<open>prf\<close>) returns
  the first \<open>len\<close> bytes of the P_SHA256 stream over \<open>A 0 = label || seed\<close>: of the
  stream after \<open>prf_rounds len\<close> rounds, the first number of rounds that yields at
  least \<open>len\<close> bytes, and so of the stream after any larger number of rounds.  The
  result has exactly \<open>len\<close> bytes.  It is a function of its four arguments and the
  HMAC alone.
\<close>

theorem prf_is_stream_prefix:
  assumes "prf_rounds len \<le> m"
  shows "tls_prf lib secret label seed len = take len (p_sha256 lib secret (label @ seed) m)
       \<and> length (tls_prf lib secret label seed len) = len
       \<and> len \<le> length (p_sha256 lib secret (label @ seed) (prf_rounds len))
       \<and> (m' < prf_rounds len \<longrightarrow> length (p_sha256 lib secret (label @ seed) m') < len)"
proof -
  have "m' < prf_rounds len \<Longrightarrow> 32 * m' < len"
    by (simp add: prf_rounds_def)
  moreover have "len \<le> 32 * prf_rounds len"
    by (simp add: prf_rounds_def)
  ultimately show ?thesis
    using assms by (simp add: tls_prf_stream length_p_sha256)
qed

theorem prf_is_stream_prefix_witness:
  "prf_rounds 40 \<le> 3
   \<and> tls_prf toy_crypto [1, 2] (ascii ''master secret'') [3, 4] 40 =
       take 40 (p_sha256 toy_crypto [1, 2] (ascii ''master secret'' @ [3, 4]) 3)
   \<and> tls_prf toy_crypto [1, 2] (ascii ''master secret'') [3, 4] 40 =
       [0, 0, 0, 0, 0, 26, 61, 0, 0, 0, 0, 0, 0, 0, 0, 0, 0, 1, 163, 208, 0, 0,
        0, 0, 0, 0, 0, 0, 0, 0, 26, 61, 0, 0, 0, 0, 0, 21, 180, 0]
   \<and> length (tls_prf toy_crypto [1, 2] (ascii ''master secret'') [3, 4] 40) = 40
   \<and> (1::nat) < prf_rounds 40
   \<and> length (p_sha256 toy_crypto [1, 2] (ascii ''master secret'' @ [3, 4]) 1) < 40"
proof -
  have h: "prf_rounds 40 \<le> 3" and h': "(1::nat) < prf_rounds 40"
    by (simp_all add: prf_rounds_def)
  from prf_is_stream_prefix [OF h, of toy_crypto "[1, 2]" "ascii ''master secret''" "[3, 4]" 1]
  show ?thesis
    using h h' toy_prf_value by (simp add: length_p_sha256)
qed

text \<open>
  C8.  For a fixed secret, label and seed and all lengths \<open>n\<close> and \<open>k\<close>,
  \<open>tls_prf \<dots> n\<close> is a prefix of \<open>tls_prf \<dots> (n + k)\<close>.
\<close>

theorem prf_prefix:
  "prefix (tls_prf lib secret label seed n) (tls_prf lib secret label seed (n + k))"
  by (simp add: tls_prf_take [of n "n + k"] take_is_prefix)

theorem prf_prefix_witness:
  "prefix (tls_prf toy_crypto [1, 2] (ascii ''master secret'') [3, 4] 12)
          (tls_prf toy_crypto [1, 2] (ascii ''master secret'') [3, 4] (12 + 28))
   \<and> tls_prf toy_crypto [1, 2] (ascii ''master secret'') [3, 4] (12 + 28) =
       [0, 0, 0, 0, 0, 26, 61, 0, 0, 0, 0, 0, 0, 0, 0, 0, 0, 1, 163, 208, 0, 0,
        0, 0, 0, 0, 0, 0, 0, 0, 26, 61, 0, 0, 0, 0, 0, 21, 180, 0]"
  using prf_prefix [of toy_crypto "[1, 2]" "ascii ''master secret''" "[3, 4]" 12 28] toy_prf_value
  by simp

section \<open>Big-endian packing\<close>

lemma from_bytes_snoc: "from_bytes (bs @ [b]) = from_bytes bs * 256 + unat b"
  by (simp add: from_bytes_def)

lemma from_bytes_Nil [simp]: "from_bytes [] = 0"
  by (simp add: from_bytes_def)

lemma unat_byte_lt: "unat (b :: byte) < 256"
  using unsigned_less [of b, where ?'a = nat] by simp

lemma from_bytes_lt: "from_bytes bs < 256 ^ length bs"
proof (induction bs rule: rev_induct)
  case Nil
  then show ?case by simp
next
  case (snoc b bs)
  have "from_bytes bs * 256 + unat b < (from_bytes bs + 1) * 256"
    using unat_byte_lt [of b] by simp
  also have "\<dots> \<le> 256 ^ length bs * 256"
    using snoc.IH by (intro mult_le_mono1) simp
  finally show ?case by (simp add: from_bytes_snoc)
qed

lemma be_bytes_from_bytes: "be_bytes (length bs) (from_bytes bs) = bs"
proof (induction bs rule: rev_induct)
  case Nil
  then show ?case by simp
next
  case (snoc b bs)
  have d: "(from_bytes bs * 256 + unat b) div 256 = from_bytes bs"
    using unat_byte_lt [of b] by simp
  have m: "unat b mod 256 = unat b"
    using unat_byte_lt [of b] by simp
  show ?case by (simp add: from_bytes_snoc d m snoc.IH)
qed

lemma to_bytes_from_bytes: "length bs = n \<Longrightarrow> to_bytes n (from_bytes bs) = Inr bs"
  using from_bytes_lt [of bs] be_bytes_from_bytes [of bs] by (simp add: to_bytes_def)

lemma to_bytes_length: "to_bytes n x = Inr bs \<Longrightarrow> length bs = n"
  by (auto simp: to_bytes_def length_be_bytes split: if_splits)

section \<open>The PKCS#1 check\<close>

lemma find_from_absent: "b \<notin> set xs \<Longrightarrow> find_from b xs k = - 1"
  by (induction xs arbitrary: k) auto

lemma find_from_first:
  "b \<notin> set ys \<Longrightarrow> find_from b (ys @ b # zs) k = int (k + length ys)"
  by (induction ys arbitrary: k) auto

lemma py_find_absent: "b \<notin> set (drop start bs) \<Longrightarrow> py_find bs b start = - 1"
  by (simp add: py_find_def find_from_absent)

lemma py_find_first:
  "b \<notin> set ys \<Longrightarrow> py_find (pre @ ys @ b # zs) b (length pre) = int (length pre + length ys)"
  by (simp add: py_find_def find_from_first)

lemma unpad_bad_prefix:
  "\<not> startswith block PKCS_PREFIX \<Longrightarrow> unpad_premaster block = Inl PaddingError"
  by (simp add: unpad_premaster_def)

lemma unpad_separator:
  assumes "block = PKCS_PREFIX @ padding @ 0x00 # sfx" and "0x00 \<notin> set padding"
  shows "unpad_premaster block = (if length sfx = 48 then Inr sfx else Inl InvalidLengthError)"
proof -
  let ?pre = "PKCS_PREFIX @ padding @ [0x00]"
  have "py_find block 0x00 (length PKCS_PREFIX) = int (length PKCS_PREFIX + length padding)"
    unfolding assms(1) using assms(2) by (rule py_find_first)
  then have "nat (py_find block 0x00 (length PKCS_PREFIX) + 1) = length ?pre"
    by simp
  moreover have "drop (length ?pre) (?pre @ sfx) = sfx"
    by (metis append_eq_conv_conj)
  moreover have "block = ?pre @ sfx"
    by (simp add: assms(1))
  ultimately have "drop (nat (py_find block 0x00 (length PKCS_PREFIX) + 1)) block = sfx"
    by (simp only:)
  moreover have "startswith block PKCS_PREFIX"
    by (simp add: assms(1) startswith_def)
  ultimately show ?thesis by (simp add: unpad_premaster_def)
qed

lemma unpad_no_separator:
  assumes "startswith block PKCS_PREFIX" and "0x00 \<notin> set (drop 2 block)" and "length block \<noteq> 48"
  shows "unpad_premaster block = Inl InvalidLengthError"
proof -
  have "py_find block 0x00 (length PKCS_PREFIX) = - 1"
    using assms(2) by (intro py_find_absent) (simp add: numeral_2_eq_2)
  then show ?thesis using assms(1, 3) by (simp add: unpad_premaster_def)
qed

lemma length_demo_block: "length demo_block = KEY_LENGTH"
  by (simp add: demo_block_def)

lemma startswith_demo_block: "startswith demo_block PKCS_PREFIX"
  by (simp add: demo_block_def startswith_def)

lemma unpad_demo_block: "unpad_premaster demo_block = Inr (replicate 48 0x22)"
  using unpad_separator [of demo_block "replicate 461 0xFF" "replicate 48 0x22"]
  by (simp add: demo_block_def)

section \<open>The record layer\<close>

lemmas tls_m_defs =
  tls_bind_def tls_return_def tls_raise_def tls_lift_def tls_get_def tls_modify_def

lemma from_bytes_Cons: "from_bytes (b # bs) = unat b * 256 ^ length bs + from_bytes bs"
proof (induction bs arbitrary: b rule: rev_induct)
  case Nil
  then show ?case by (simp add: from_bytes_def)
next
  case (snoc x xs)
  have "from_bytes (b # xs @ [x]) = from_bytes ((b # xs) @ [x])" by simp
  also have "\<dots> = from_bytes (b # xs) * 256 + unat x" by (rule from_bytes_snoc)
  finally show ?case by (simp add: snoc.IH from_bytes_snoc algebra_simps)
qed

lemma from_bytes_2 [simp]: "from_bytes [a, b] = unat a * 256 + unat b"
  by (simp add: from_bytes_def)

lemma from_bytes_1 [simp]: "from_bytes [a] = unat a"
  by (simp add: from_bytes_def)

lemma unpack_BHH_5 [simp]:
  "unpack_BHH [c, v1, v0, l1, l0] =
     Inr (unat c, unat v1 * 256 + unat v0, unat l1 * 256 + unat l0)"
  by (simp add: unpack_BHH_def)

lemma recv_ok:
  assumes "inbound (sock s) = bs @ rest" and "length bs = k"
  shows "recv k s = (Inr bs, s\<lparr>sock := (sock s)\<lparr>inbound := rest\<rparr>\<rparr>)"
proof (cases "k = 0")
  case True
  with assms have "bs = []" and "inbound (sock s) = rest" by simp_all
  then show ?thesis using True by (simp add: recv_def)
next
  case False
  with assms have "inbound (sock s) \<noteq> []" by auto
  then show ?thesis using False assms by (simp add: recv_def)
qed

lemma recv_waiting:
  "inbound (sock s) \<noteq> [] \<Longrightarrow> 0 < k \<Longrightarrow>
   recv k s = (Inr (take k (inbound (sock s))),
               s\<lparr>sock := (sock s)\<lparr>inbound := drop k (inbound (sock s))\<rparr>\<rparr>)"
  by (simp add: recv_def)

lemma recv_closed:
  "inbound (sock s) = [] \<Longrightarrow> arriving (sock s) = [] \<Longrightarrow> recv k s = (Inr [], s)"
  by (simp add: recv_def)

lemma recv_header:
  "inbound (sock s) = c # v1 # v0 # l1 # l0 # rest \<Longrightarrow>
   recv 5 s = (Inr [c, v1, v0, l1, l0], s\<lparr>sock := (sock s)\<lparr>inbound := rest\<rparr>\<rparr>)"
  using recv_ok [of s "[c, v1, v0, l1, l0]" rest 5] by simp

text \<open>A record that has been received whole: the header, and a payload of the length
  the header announces.\<close>

lemma read_record_header:
  assumes "inbound (sock s) = c # v1 # v0 # l1 # l0 # payload @ rest"
    and "length payload = unat l1 * 256 + unat l0"
  shows "read_record expected_type s =
     (if unat c = expected_type
      then (Inr \<lparr>rec_content_type = unat c, rec_version = unat v1 * 256 + unat v0,
                 rec_data = payload\<rparr>,
            s\<lparr>sock := (sock s)\<lparr>inbound := rest\<rparr>\<rparr>)
      else (Inl (UnexpectedContentType (unat c) expected_type),
            s\<lparr>sock := (sock s)\<lparr>inbound := rest\<rparr>\<rparr>))"
proof -
  let ?s1 = "s\<lparr>sock := (sock s)\<lparr>inbound := payload @ rest\<rparr>\<rparr>"
  have h: "recv 5 s = (Inr [c, v1, v0, l1, l0], ?s1)"
    by (rule recv_header [OF assms(1)])
  have "recv (unat l1 * 256 + unat l0) ?s1 =
          (Inr payload, ?s1\<lparr>sock := (sock ?s1)\<lparr>inbound := rest\<rparr>\<rparr>)"
    by (rule recv_ok [OF _ assms(2)]) simp
  then have p: "recv (unat l1 * 256 + unat l0) ?s1 =
          (Inr payload, s\<lparr>sock := (sock s)\<lparr>inbound := rest\<rparr>\<rparr>)"
    by simp
  show ?thesis
    by (simp add: read_record_def tls_m_defs h p)
qed

text \<open>A record of which only a part of the payload has been received when the
  payload is read: the one \<^verbatim>\<open>recv(length)\<close> returns what is there, and the code takes
  it for the payload.\<close>

lemma read_record_part:
  assumes "inbound (sock s) = c # v1 # v0 # l1 # l0 # part"
    and "part \<noteq> []" and "length part \<le> unat l1 * 256 + unat l0"
  shows "read_record expected_type s =
     (if unat c = expected_type
      then (Inr \<lparr>rec_content_type = unat c, rec_version = unat v1 * 256 + unat v0,
                 rec_data = part\<rparr>,
            s\<lparr>sock := (sock s)\<lparr>inbound := []\<rparr>\<rparr>)
      else (Inl (UnexpectedContentType (unat c) expected_type),
            s\<lparr>sock := (sock s)\<lparr>inbound := []\<rparr>\<rparr>))"
proof -
  let ?s1 = "s\<lparr>sock := (sock s)\<lparr>inbound := part\<rparr>\<rparr>"
  have h: "recv 5 s = (Inr [c, v1, v0, l1, l0], ?s1)"
    by (rule recv_header [OF assms(1)])
  have k: "0 < unat l1 * 256 + unat l0"
    using assms(2,3) by (cases part) auto
  have "recv (unat l1 * 256 + unat l0) ?s1 =
          (Inr (take (unat l1 * 256 + unat l0) (inbound (sock ?s1))),
           ?s1\<lparr>sock := (sock ?s1)\<lparr>inbound := drop (unat l1 * 256 + unat l0) (inbound (sock ?s1))\<rparr>\<rparr>)"
    by (rule recv_waiting [OF _ k]) (simp add: assms(2))
  then have p: "recv (unat l1 * 256 + unat l0) ?s1 =
          (Inr part, s\<lparr>sock := (sock s)\<lparr>inbound := []\<rparr>\<rparr>)"
    using assms(3) by simp
  show ?thesis
    by (simp add: read_record_def tls_m_defs h p)
qed

lemma demo_delivery_sock:
  "inbound (sock (demo_delivery bs pieces)) = bs"
  "arriving (sock (demo_delivery bs pieces)) = pieces"
  "(demo_delivery bs pieces)\<lparr>sock := (sock (demo_delivery bs pieces))\<lparr>inbound := bs'\<rparr>\<rparr> =
     demo_delivery bs' pieces"
  by (simp_all add: demo_delivery_def initial_state_def)

text \<open>
  C9.  The claim has \<open>read_record\<close> read exactly \<open>length\<close> payload bytes after the
  header, return a record with that \<open>length\<close>-byte payload, and fail with the
  unexpected-content-type error on every stream whose header names another type.
  The code calls \<^verbatim>\<open>recv(5)\<close> and \<^verbatim>\<open>recv(length)\<close> once each and looks at the length
  of neither result.  Evaluated on a handshake record that announces five payload
  bytes, of which two have been received when the payload is read and three
  arrive later, it returns a record whose payload is the two bytes and leaves the
  other three to be read as the next header.  Evaluated on an alert record of
  which three header bytes have been received and the rest arrives later, it
  fails in unpacking the header, not with the content-type error.
\<close>

theorem read_record_short_read:
  "read_record HANDSHAKE_CONTENT_TYPE (demo_delivery [0x16, 3, 3, 0, 5, 1, 2] [[3, 4, 5]]) =
     (Inr \<lparr>rec_content_type = 0x16, rec_version = 0x0303, rec_data = [1, 2]\<rparr>,
      demo_delivery [] [[3, 4, 5]])
   \<and> read_record HANDSHAKE_CONTENT_TYPE (demo_delivery [0x15, 3, 3] [[0, 2, 7, 8]]) =
     (Inl StructError, demo_delivery [] [[0, 2, 7, 8]])"
proof -
  have a: "read_record HANDSHAKE_CONTENT_TYPE (demo_delivery [0x16, 3, 3, 0, 5, 1, 2] [[3, 4, 5]]) =
     (Inr \<lparr>rec_content_type = 0x16, rec_version = 0x0303, rec_data = [1, 2]\<rparr>,
      demo_delivery [] [[3, 4, 5]])"
    using read_record_part [of "demo_delivery [0x16, 3, 3, 0, 5, 1, 2] [[3, 4, 5]]"
            "0x16" 3 3 0 5 "[1, 2]" HANDSHAKE_CONTENT_TYPE]
    by (simp add: demo_delivery_sock)
  have r: "recv 5 (demo_delivery [0x15, 3, 3] [[0, 2, 7, 8]]) =
             (Inr [0x15, 3, 3], demo_delivery [] [[0, 2, 7, 8]])"
    using recv_waiting [of "demo_delivery [0x15, 3, 3] [[0, 2, 7, 8]]" 5]
    by (simp add: demo_delivery_sock)
  have b: "read_record HANDSHAKE_CONTENT_TYPE (demo_delivery [0x15, 3, 3] [[0, 2, 7, 8]]) =
     (Inl StructError, demo_delivery [] [[0, 2, 7, 8]])"
    by (simp add: read_record_def tls_m_defs r unpack_BHH_def)
  show ?thesis using a b by simp
qed
section \<open>Record protection and the sequence counters\<close>

lemma to_ad_eq:
  "to_ad seq_num tls_type tls_version tls_len =
     (if seq_num < 2 ^ 64 \<and> tls_type < 2 ^ 8 \<and> tls_version < 2 ^ 16 \<and> tls_len < 2 ^ 16
      then Inr (be_bytes 8 seq_num @ be_bytes 1 tls_type @ be_bytes 2 tls_version
                @ be_bytes 2 tls_len)
      else Inl StructError)"
  by (simp add: to_ad_def)

lemma encrypt_eq:
  "encrypt lib dat tls_type s =
     (case session_keys s of
        None \<Rightarrow> (Inl NoSessionKeys, s)
      | Some keys \<Rightarrow>
          (case to_ad (server_seq_num s) tls_type VERSION (length dat) of
             Inl e \<Rightarrow> (Inl e, s)
           | Inr ad \<Rightarrow>
               (Inr (get_random_bytes 8
                     @ fst (encrypt_and_digest lib (server_key keys)
                              (server_salt keys @ get_random_bytes 8) ad dat)
                     @ snd (encrypt_and_digest lib (server_key keys)
                              (server_salt keys @ get_random_bytes 8) ad dat)),
                s\<lparr>server_seq_num := server_seq_num s + 1\<rparr>)))"
  by (simp add: encrypt_def Let_def tls_m_defs get_session_keys_def
           split: option.splits sum.splits prod.splits)

lemma decrypt_eq:
  "decrypt lib dat tls_type tls_version s =
     (case session_keys s of
        None \<Rightarrow> (Inl NoSessionKeys, s)
      | Some keys \<Rightarrow>
          (case to_ad (client_seq_num s) tls_type tls_version
                  (length (drop 8 (take (length dat - 16) dat))) of
             Inl e \<Rightarrow> (Inl e, s)
           | Inr ad \<Rightarrow>
               (case decrypt_and_verify lib (client_key keys) (client_salt keys @ take 8 dat) ad
                       (drop 8 (take (length dat - 16) dat)) (drop (length dat - 16) dat) of
                  None \<Rightarrow> Inl AuthenticationError
                | Some plaintext \<Rightarrow> Inr plaintext,
                s\<lparr>client_seq_num := client_seq_num s + 1\<rparr>)))"
  by (simp add: decrypt_def Let_def tls_m_defs get_session_keys_def
           split: option.splits sum.splits)

subsection \<open>Counters never go down\<close>

lemma keeps_seq_bind:
  assumes "keeps_seq m" and "\<And>x. keeps_seq (f x)"
  shows "keeps_seq (tls_bind m f)"
  unfolding keeps_seq_def
proof
  fix s
  obtain r s1 where ms: "m s = (r, s1)" by (cases "m s")
  from assms(1) have 1: "client_seq_num s1 = client_seq_num s" "server_seq_num s1 = server_seq_num s"
    using ms by (auto simp: keeps_seq_def dest: spec [of _ s])
  show "client_seq_num (snd (tls_bind m f s)) = client_seq_num s
      \<and> server_seq_num (snd (tls_bind m f s)) = server_seq_num s"
  proof (cases r)
    case (Inl e)
    then show ?thesis using 1 ms by (simp add: tls_bind_def)
  next
    case (Inr x)
    from assms(2) [of x] have "client_seq_num (snd (f x s1)) = client_seq_num s1"
      "server_seq_num (snd (f x s1)) = server_seq_num s1"
      by (auto simp: keeps_seq_def dest: spec [of _ s1])
    then show ?thesis using 1 ms Inr by (simp add: tls_bind_def)
  qed
qed

lemma keeps_seq_if:
  "keeps_seq m1 \<Longrightarrow> keeps_seq m2 \<Longrightarrow> keeps_seq (if c then m1 else m2)"
  by simp

lemma keeps_seq_case_prod:
  "(\<And>x y. keeps_seq (f x y)) \<Longrightarrow> keeps_seq (case_prod f p)"
  by (cases p) simp

lemma keeps_seq_pure [simp]:
  "keeps_seq (tls_return x)" "keeps_seq (tls_raise e)" "keeps_seq (tls_lift r)"
  "keeps_seq (tls_get g)" "keeps_seq get_session_keys"
  "keeps_seq (recv k)" "keeps_seq (send payload)"
  "keeps_seq (tls_modify (\<lambda>s. s\<lparr>handshake_log := handshake_log s @ payload\<rparr>))"
  "keeps_seq (tls_modify (\<lambda>s. s\<lparr>session_keys := Some keys\<rparr>))"
  by (simp_all add: keeps_seq_def tls_m_defs get_session_keys_def recv_def send_def
               split: option.splits sum.splits list.splits)

lemmas keeps_seq_intros = keeps_seq_bind keeps_seq_if keeps_seq_case_prod

lemma keeps_seq_read_record [simp]: "keeps_seq (read_record expected_type)"
  unfolding read_record_def by (intro keeps_seq_intros; simp)

lemma keeps_seq_write_record [simp]: "keeps_seq (write_record r)"
  unfolding write_record_def by (intro keeps_seq_intros; simp)

lemma keeps_seq_read_handshake_plain [simp]:
  "keeps_seq (read_handshake_record lib expected_type False)"
  unfolding read_handshake_record_def Let_def if_False by (intro keeps_seq_intros; simp)

lemma keeps_seq_write_handshake_plain [simp]:
  "keeps_seq (write_handshake_record lib r False)"
  unfolding write_handshake_record_def Let_def if_False by (intro keeps_seq_intros; simp)

lemma keeps_seq_get_server_hello [simp]: "keeps_seq get_server_hello"
  unfolding get_server_hello_def by (intro keeps_seq_intros; simp)

lemma keeps_seq_get_certificate [simp]: "keeps_seq get_certificate"
  unfolding get_certificate_def by (intro keeps_seq_intros; simp)

lemma keeps_seq_get_server_finished [simp]: "keeps_seq (get_server_finished lib)"
  unfolding get_server_finished_def Let_def by (intro keeps_seq_intros; simp)

lemma keeps_seq_derive_keys [simp]: "keeps_seq (derive_keys lib enc client_random)"
  unfolding derive_keys_def Let_def by (intro keeps_seq_intros; simp)

lemma keeps_seq_shake_hands_keys: "keeps_seq (shake_hands_keys lib)"
  unfolding shake_hands_keys_def Let_def by (intro keeps_seq_intros; simp)

lemma seq_step_bind:
  assumes "seq_step a b m" and "\<And>x. seq_step a' b' (f x)"
  shows "seq_step (a + a') (b + b') (tls_bind m f)"
  unfolding seq_step_def
proof
  fix s
  obtain r s1 where ms: "m s = (r, s1)" by (cases "m s")
  from assms(1) have 1: "client_seq_num s \<le> client_seq_num s1"
      "client_seq_num s1 \<le> client_seq_num s + a"
      "server_seq_num s \<le> server_seq_num s1"
      "server_seq_num s1 \<le> server_seq_num s + b"
    using ms by (auto simp: seq_step_def dest: spec [of _ s])
  show "client_seq_num s \<le> client_seq_num (snd (tls_bind m f s))
      \<and> client_seq_num (snd (tls_bind m f s)) \<le> client_seq_num s + (a + a')
      \<and> server_seq_num s \<le> server_seq_num (snd (tls_bind m f s))
      \<and> server_seq_num (snd (tls_bind m f s)) \<le> server_seq_num s + (b + b')"
  proof (cases r)
    case (Inl e)
    then show ?thesis using 1 ms by (simp add: tls_bind_def)
  next
    case (Inr x)
    from assms(2) [of x] have 2: "client_seq_num s1 \<le> client_seq_num (snd (f x s1))"
      "client_seq_num (snd (f x s1)) \<le> client_seq_num s1 + a'"
      "server_seq_num s1 \<le> server_seq_num (snd (f x s1))"
      "server_seq_num (snd (f x s1)) \<le> server_seq_num s1 + b'"
      by (auto simp: seq_step_def dest: spec [of _ s1])
    show ?thesis using 1 2 ms Inr by (simp add: tls_bind_def)
  qed
qed

lemma keeps_seq_step: "keeps_seq m \<Longrightarrow> seq_step a b m"
  by (simp add: keeps_seq_def seq_step_def)

lemma seq_step_keeps_bind:
  "keeps_seq m \<Longrightarrow> (\<And>x. seq_step a b (f x)) \<Longrightarrow> seq_step a b (tls_bind m f)"
  using seq_step_bind [of 0 0 m a b f] by (simp add: keeps_seq_step)

lemma seq_step_bind_keeps:
  "seq_step a b m \<Longrightarrow> (\<And>x. keeps_seq (f x)) \<Longrightarrow> seq_step a b (tls_bind m f)"
  using seq_step_bind [of a b m 0 0 f] by (simp add: keeps_seq_step)

lemma seq_step_encrypt: "seq_step 0 (Suc 0) (encrypt lib dat tls_type)"
  by (simp add: seq_step_def encrypt_eq split: option.splits sum.splits)

lemma seq_step_decrypt: "seq_step (Suc 0) 0 (decrypt lib dat tls_type tls_version)"
  by (simp add: seq_step_def decrypt_eq split: option.splits sum.splits)

lemma seq_step_read: "seq_step (Suc 0) 0 (read lib)"
  unfolding read_def by (rule seq_step_keeps_bind) (simp_all add: seq_step_decrypt)

lemma seq_step_tls_write: "seq_step 0 (Suc 0) (tls_write lib msg)"
  unfolding tls_write_def by (rule seq_step_bind_keeps) (simp_all add: seq_step_encrypt)

lemma seq_step_read_handshake_record:
  "seq_step (Suc 0) 0 (read_handshake_record lib expected_type decrypt_flag)"
  unfolding read_handshake_record_def Let_def
  apply (rule seq_step_keeps_bind, simp)
  apply (rule seq_step_bind_keeps)
   apply (simp add: seq_step_decrypt keeps_seq_step)
  apply (intro keeps_seq_intros; simp)
  done

lemma seq_step_write_handshake_record:
  "seq_step 0 (Suc 0) (write_handshake_record lib r encrypt_flag)"
  unfolding write_handshake_record_def Let_def
  apply (rule seq_step_keeps_bind, simp)
  apply (rule seq_step_bind_keeps)
   apply (simp add: seq_step_encrypt keeps_seq_step)
  apply (intro keeps_seq_intros; simp)
  done

lemma seq_step_shake_hands_finished: "seq_step (Suc 0) (Suc 0) (shake_hands_finished lib)"
proof -
  have w: "seq_step 0 (Suc 0) (tls_bind (write_record r) (\<lambda>_.
             tls_bind (get_server_finished lib) (\<lambda>verify_data.
             write_handshake_record lib
               \<lparr>hs_type = FINISHED_HANDSHAKE_TYPE, hs_data = verify_data\<rparr> True)))" for r
    by (intro seq_step_keeps_bind seq_step_write_handshake_record) simp_all
  have "seq_step (Suc 0 + 0) (0 + Suc 0)
          (tls_bind (read_handshake_record lib FINISHED_HANDSHAKE_TYPE True) (\<lambda>client_finished.
             tls_bind (write_record \<lparr>rec_content_type = CHANGE_CIPHER_SPEC_CONTENT_TYPE,
                                     rec_version = VERSION, rec_data = [0x01]\<rparr>) (\<lambda>_.
             tls_bind (get_server_finished lib) (\<lambda>verify_data.
             write_handshake_record lib
               \<lparr>hs_type = FINISHED_HANDSHAKE_TYPE, hs_data = verify_data\<rparr> True))))"
    by (rule seq_step_bind [OF seq_step_read_handshake_record w])
  then have rf: "seq_step (Suc 0) (Suc 0)
          (tls_bind (read_handshake_record lib FINISHED_HANDSHAKE_TYPE True) (\<lambda>client_finished.
             tls_bind (write_record \<lparr>rec_content_type = CHANGE_CIPHER_SPEC_CONTENT_TYPE,
                                     rec_version = VERSION, rec_data = [0x01]\<rparr>) (\<lambda>_.
             tls_bind (get_server_finished lib) (\<lambda>verify_data.
             write_handshake_record lib
               \<lparr>hs_type = FINISHED_HANDSHAKE_TYPE, hs_data = verify_data\<rparr> True))))"
    by simp
  show ?thesis
    unfolding shake_hands_finished_def
    by (rule seq_step_keeps_bind [OF keeps_seq_read_record rf])
qed

lemma seq_step_shake_hands: "seq_step (Suc 0) (Suc 0) (shake_hands lib)"
  unfolding shake_hands_def
  by (rule seq_step_keeps_bind [OF keeps_seq_shake_hands_keys seq_step_shake_hands_finished])

lemma run_op_counters:
  "client_seq_num s \<le> client_seq_num (run_op lib s op)
 \<and> client_seq_num (run_op lib s op) \<le> client_seq_num s + op_reads op
 \<and> server_seq_num s \<le> server_seq_num (run_op lib s op)
 \<and> server_seq_num (run_op lib s op) \<le> server_seq_num s + op_writes op"
proof (cases op)
  case Read
  then show ?thesis using seq_step_read [of lib] by (simp add: seq_step_def)
next
  case (Write msg)
  then show ?thesis using seq_step_tls_write [of lib msg] by (simp add: seq_step_def)
qed

lemma run_ops_counters:
  "client_seq_num s \<le> client_seq_num (run_ops lib ops s)
 \<and> client_seq_num (run_ops lib ops s) \<le> client_seq_num s + sum_list (map op_reads ops)
 \<and> server_seq_num s \<le> server_seq_num (run_ops lib ops s)
 \<and> server_seq_num (run_ops lib ops s) \<le> server_seq_num s + sum_list (map op_writes ops)"
proof (induction ops arbitrary: s)
  case Nil
  then show ?case by (simp add: run_ops_def)
next
  case (Cons op ops)
  have r: "run_ops lib (op # ops) s = run_ops lib ops (run_op lib s op)"
    by (simp add: run_ops_def)
  from Cons.IH [of "run_op lib s op"] run_op_counters [of s lib op]
  show ?case unfolding r by simp
qed

subsection \<open>The stand-in library keeps the AES-GCM contract\<close>

lemma from_bytes_be_bytes: "from_bytes (be_bytes n v) = v mod 256 ^ n"
proof (induction n arbitrary: v)
  case 0
  then show ?case by simp
next
  case (Suc n)
  have u: "unat (word_of_nat (v mod 256) :: byte) = v mod 256"
    by (simp add: unat_of_nat)
  have "from_bytes (be_bytes (Suc n) v) = (v div 256 mod 256 ^ n) * 256 + v mod 256"
    by (simp add: from_bytes_snoc Suc.IH u)
  also have "\<dots> = v mod (256 * 256 ^ n)"
    by (simp add: mod_mult2_eq)
  finally show ?case by simp
qed

lemma be_bytes_inj:
  assumes "be_bytes n x = be_bytes n y"
  shows "x mod 256 ^ n = y mod 256 ^ n"
  using arg_cong [OF assms, of from_bytes] by (simp add: from_bytes_be_bytes)

lemma byte_sum_update:
  "i < length xs \<Longrightarrow> byte_sum (xs[i := b]) + unat (xs ! i) = byte_sum xs + unat b"
proof (induction xs arbitrary: i)
  case Nil
  then show ?case by simp
next
  case (Cons x xs)
  show ?case
  proof (cases i)
    case 0
    then show ?thesis by (simp add: byte_sum_def)
  next
    case (Suc j)
    with Cons.prems have "j < length xs" by simp
    from Cons.IH [OF this] show ?thesis using Suc by (simp add: byte_sum_def)
  qed
qed

lemma be_bytes_16_near:
  assumes "be_bytes 16 (k + x) = be_bytes 16 (k + y)" and "x + a = y + b"
    and "a < 256" and "b < 256"
  shows "a = b"
proof (rule ccontr)
  assume ne: "a \<noteq> b"
  have m: "(k + x) mod 256 ^ 16 = (k + y) mod 256 ^ 16"
    using assms(1) by (rule be_bytes_inj)
  show False
  proof (cases "a < b")
    case True
    then have "k + x = (k + y) + (b - a)" using assms(2) by simp
    with m have "((k + y) + (b - a)) mod 256 ^ 16 = (k + y) mod 256 ^ 16" by simp
    then have "(256 :: nat) ^ 16 dvd b - a"
      by (metis add_diff_cancel_left' le_add1 mod_eq_dvd_iff_nat)
    then have "(256 :: nat) ^ 16 \<le> b - a"
      using True by (intro dvd_imp_le) simp_all
    then show False using assms(4) by simp
  next
    case False
    with ne have "b < a" by simp
    then have "k + y = (k + x) + (a - b)" using assms(2) by simp
    with m have "((k + x) + (a - b)) mod 256 ^ 16 = (k + x) mod 256 ^ 16" by simp
    then have "(256 :: nat) ^ 16 dvd a - b"
      by (metis add_diff_cancel_left' le_add1 mod_eq_dvd_iff_nat)
    then have "(256 :: nat) ^ 16 \<le> a - b"
      using \<open>b < a\<close> by (intro dvd_imp_le) simp_all
    then show False using assms(3) by simp
  qed
qed

lemma toy_stream_involution: "toy_stream key nonce (toy_stream key nonce bs) = bs"
  by (simp add: toy_stream_def o_def xor.assoc)

lemma length_toy_stream [simp]: "length (toy_stream key nonce bs) = length bs"
  by (simp add: toy_stream_def)

lemma length_toy_tag [simp]: "length (toy_tag key nonce ad ct) = 16"
  by (simp add: toy_tag_def length_be_bytes)

lemma toy_tag_update:
  assumes "i < length ct" and "b \<noteq> ct ! i"
  shows "toy_tag key nonce ad (ct[i := b]) \<noteq> toy_tag key nonce ad ct"
proof
  assume "toy_tag key nonce ad (ct[i := b]) = toy_tag key nonce ad ct"
  then have "be_bytes 16 ((byte_sum key + byte_sum nonce + byte_sum ad) + byte_sum (ct[i := b])) =
             be_bytes 16 ((byte_sum key + byte_sum nonce + byte_sum ad) + byte_sum ct)"
    by (simp add: toy_tag_def)
  from be_bytes_16_near [OF this byte_sum_update [OF assms(1)] unat_byte_lt unat_byte_lt]
  have "unat (ct ! i) = unat b" .
  then have "ct ! i = b" by (rule word_unat_eq_iff [THEN iffD2])
  then show False using assms(2) by simp
qed

lemma toy_aead_contract: "aead_contract toy_crypto"
  unfolding aead_contract_def
proof (intro allI impI)
  fix key nonce ad plaintext ciphertext tag
  assume e: "encrypt_and_digest toy_crypto key nonce ad plaintext = (ciphertext, tag)"
  then have c: "ciphertext = toy_stream key nonce plaintext"
    and t: "tag = toy_tag key nonce ad ciphertext"
    by auto
  have tamper: "decrypt_and_verify toy_crypto key nonce ad
                  (take (length ciphertext) ((ciphertext @ tag)[i := b]))
                  (drop (length ciphertext) ((ciphertext @ tag)[i := b])) = None"
    if i: "i < length (ciphertext @ tag) \<and> b \<noteq> (ciphertext @ tag) ! i" for i b
  proof (cases "i < length ciphertext")
    case True
    with i have "b \<noteq> ciphertext ! i" by (simp add: nth_append)
    with True have "toy_tag key nonce ad (ciphertext[i := b]) \<noteq> tag"
      unfolding t by (rule toy_tag_update)
    then show ?thesis using True by (simp add: list_update_append)
  next
    case False
    with i have j: "i - length ciphertext < length tag" "b \<noteq> tag ! (i - length ciphertext)"
      by (auto simp: nth_append)
    then have "tag[i - length ciphertext := b] \<noteq> tag"
      by (metis nth_list_update_eq)
    then show ?thesis using False t by (simp add: list_update_append)
  qed
  show "length ciphertext = length plaintext \<and> length tag = 16
      \<and> decrypt_and_verify toy_crypto key nonce ad ciphertext tag = Some plaintext
      \<and> (\<forall>i b. i < length (ciphertext @ tag) \<and> b \<noteq> (ciphertext @ tag) ! i \<longrightarrow>
            decrypt_and_verify toy_crypto key nonce ad
              (take (length ciphertext) ((ciphertext @ tag)[i := b]))
              (drop (length ciphertext) ((ciphertext @ tag)[i := b])) = None)"
    using tamper by (simp add: c t toy_stream_involution)
qed

subsection \<open>Encrypting and decrypting\<close>

lemma aead_slices:
  assumes "length nonce = 8" and "length xs = n + 16"
  shows "take 8 (nonce @ xs) = nonce"
    and "drop 8 (take (length (nonce @ xs) - 16) (nonce @ xs)) = take n xs"
    and "drop (length (nonce @ xs) - 16) (nonce @ xs) = drop n xs"
  using assms by simp_all

lemma encrypt_payload:
  assumes "session_keys s = Some keys"
    and "server_seq_num s < 2 ^ 64" and "tls_type < 2 ^ 8" and "length dat < 2 ^ 16"
    and "ad = be_bytes 8 (server_seq_num s) @ be_bytes 1 tls_type @ be_bytes 2 VERSION
              @ be_bytes 2 (length dat)"
    and "encrypt_and_digest lib (server_key keys) (server_salt keys @ get_random_bytes 8) ad dat
           = (ciphertext, tag)"
  shows "encrypt lib dat tls_type s =
           (Inr (get_random_bytes 8 @ ciphertext @ tag), s\<lparr>server_seq_num := server_seq_num s + 1\<rparr>)"
  using assms by (simp add: encrypt_eq to_ad_eq)

lemma decrypt_payload:
  assumes "session_keys s = Some keys"
    and "client_seq_num s < 2 ^ 64" and "tls_type < 2 ^ 8" and "tls_version < 2 ^ 16"
    and "n < 2 ^ 16" and "length nonce = 8" and "length xs = n + 16"
    and "ad = be_bytes 8 (client_seq_num s) @ be_bytes 1 tls_type @ be_bytes 2 tls_version
              @ be_bytes 2 n"
  shows "decrypt lib (nonce @ xs) tls_type tls_version s =
           (case decrypt_and_verify lib (client_key keys) (client_salt keys @ nonce) ad
                   (take n xs) (drop n xs) of
              None \<Rightarrow> Inl AuthenticationError
            | Some plaintext \<Rightarrow> Inr plaintext,
            s\<lparr>client_seq_num := client_seq_num s + 1\<rparr>)"
proof -
  have l: "length (drop 8 (take (length (nonce @ xs) - 16) (nonce @ xs))) = n"
    using assms(6, 7) by simp
  show ?thesis
    unfolding decrypt_eq l
    using assms by (simp add: to_ad_eq)
qed

text \<open>
  C5 (as amended).  Let the library keep the AES-GCM contract.  For every
  plaintext shorter than \<open>2^16\<close> bytes, content type below \<open>2^8\<close> and server sequence
  number below \<open>2^64\<close>, \<open>encrypt\<close> returns \<open>explicit_nonce || ciphertext || tag\<close>
  under the server write key and salt; \<open>decrypt\<close> returns the plaintext from that
  payload on an object whose client write key and salt are those server write key
  and salt and whose client sequence number is the server sequence number used,
  with the same content type and the protocol version \<open>0x0303\<close>; and with any one
  byte of the ciphertext or of the tag altered, \<open>decrypt\<close> fails with
  \<open>AuthenticationError\<close>.
\<close>

theorem aead_round_trip:
  assumes "aead_contract lib"
    and "session_keys s = Some keys" and "session_keys s' = Some keys'"
    and "client_key keys' = server_key keys" and "client_salt keys' = server_salt keys"
    and "client_seq_num s' = server_seq_num s"
    and "server_seq_num s < 2 ^ 64" and "tls_type < 2 ^ 8" and "length plaintext < 2 ^ 16"
  shows "\<exists>payload. fst (encrypt lib plaintext tls_type s) = Inr payload
       \<and> take 8 payload = get_random_bytes 8
       \<and> length payload = 8 + length plaintext + 16
       \<and> fst (decrypt lib payload tls_type VERSION s') = Inr plaintext
       \<and> (\<forall>i b. 8 \<le> i \<and> i < length payload \<and> b \<noteq> payload ! i \<longrightarrow>
             fst (decrypt lib (payload[i := b]) tls_type VERSION s') = Inl AuthenticationError)"
proof -
  define nonce where "nonce = get_random_bytes 8"
  define ad where "ad = be_bytes 8 (server_seq_num s) @ be_bytes 1 tls_type @ be_bytes 2 VERSION
                          @ be_bytes 2 (length plaintext)"
  obtain ciphertext tag where
    e: "encrypt_and_digest lib (server_key keys) (server_salt keys @ nonce) ad plaintext
          = (ciphertext, tag)"
    by (cases "encrypt_and_digest lib (server_key keys) (server_salt keys @ nonce) ad plaintext")
  from assms(1) e have lc: "length ciphertext = length plaintext" and lt: "length tag = 16"
    and ok: "decrypt_and_verify lib (server_key keys) (server_salt keys @ nonce) ad ciphertext tag
               = Some plaintext"
    and bad: "\<And>i b. i < length (ciphertext @ tag) \<Longrightarrow> b \<noteq> (ciphertext @ tag) ! i \<Longrightarrow>
               decrypt_and_verify lib (server_key keys) (server_salt keys @ nonce) ad
                 (take (length ciphertext) ((ciphertext @ tag)[i := b]))
                 (drop (length ciphertext) ((ciphertext @ tag)[i := b])) = None"
    unfolding aead_contract_def by blast+
  have ln: "length nonce = 8" by (simp add: nonce_def get_random_bytes_def)
  let ?payload = "nonce @ ciphertext @ tag"
  have enc: "encrypt lib plaintext tls_type s =
               (Inr ?payload, s\<lparr>server_seq_num := server_seq_num s + 1\<rparr>)"
    unfolding nonce_def
    by (rule encrypt_payload [OF assms(2) assms(7) assms(8) assms(9) ad_def e [unfolded nonce_def]])
  have ad': "ad = be_bytes 8 (client_seq_num s') @ be_bytes 1 tls_type @ be_bytes 2 VERSION
                    @ be_bytes 2 (length plaintext)"
    by (simp add: ad_def assms(6))
  have dec: "decrypt lib (nonce @ xs) tls_type VERSION s' =
           (case decrypt_and_verify lib (client_key keys') (client_salt keys' @ nonce) ad
                   (take (length plaintext) xs) (drop (length plaintext) xs) of
              None \<Rightarrow> Inl AuthenticationError
            | Some p \<Rightarrow> Inr p,
            s'\<lparr>client_seq_num := client_seq_num s' + 1\<rparr>)"
    if "length xs = length plaintext + 16" for xs
    using assms(6, 7) by (intro decrypt_payload [OF assms(3) _ assms(8) _ assms(9) ln that ad']) simp_all
  have 1: "fst (decrypt lib ?payload tls_type VERSION s') = Inr plaintext"
    using dec [of "ciphertext @ tag"] ok by (simp add: lc lt assms(4, 5))
  have 2: "fst (decrypt lib (?payload[i := b]) tls_type VERSION s') = Inl AuthenticationError"
    if i: "8 \<le> i \<and> i < length ?payload \<and> b \<noteq> ?payload ! i" for i b
  proof -
    from i ln have j: "i - 8 < length (ciphertext @ tag)" by auto
    from i ln have "?payload ! i = (ciphertext @ tag) ! (i - 8)"
      by (subst nth_append) simp
    with i have nb: "b \<noteq> (ciphertext @ tag) ! (i - 8)" by simp
    from i ln have u: "?payload[i := b] = nonce @ (ciphertext @ tag)[i - 8 := b]"
      by (simp add: list_update_append)
    show ?thesis
      unfolding u
      using dec [of "(ciphertext @ tag)[i - 8 := b]"] bad [OF j nb]
      by (simp add: lc lt assms(4, 5))
  qed
  have "fst (encrypt lib plaintext tls_type s) = Inr ?payload
       \<and> take 8 ?payload = get_random_bytes 8
       \<and> length ?payload = 8 + length plaintext + 16
       \<and> fst (decrypt lib ?payload tls_type VERSION s') = Inr plaintext
       \<and> (\<forall>i b. 8 \<le> i \<and> i < length ?payload \<and> b \<noteq> ?payload ! i \<longrightarrow>
             fst (decrypt lib (?payload[i := b]) tls_type VERSION s') = Inl AuthenticationError)"
    using enc 1 2 ln by (simp add: lc lt nonce_def)
  then show ?thesis by blast
qed

lemmas demo_defs =
  demo_keyed_state_def demo_peer_state_def demo_state_def demo_delivery_def initial_state_def demo_keys_def
  demo_peer_keys_def get_random_bytes_def

lemma demo_encrypt_value:
  "encrypt toy_crypto [1, 2, 3] DATA_CONTENT_TYPE (demo_keyed_state []) =
     (Inr [65, 65, 65, 65, 65, 65, 65, 65, 77, 78, 79,
           0, 0, 0, 0, 0, 0, 0, 0, 0, 0, 0, 0, 0, 0, 3, 86],
      (demo_keyed_state [])\<lparr>server_seq_num := 1\<rparr>)"
  by (simp add: encrypt_eq to_ad_eq demo_defs toy_defs replicate_eval
           numeral_2_eq_2 [symmetric])

theorem aead_round_trip_witness:
  "aead_contract toy_crypto
 \<and> session_keys (demo_keyed_state []) = Some demo_keys
 \<and> session_keys demo_peer_state = Some demo_peer_keys
 \<and> client_key demo_peer_keys = server_key demo_keys
 \<and> client_salt demo_peer_keys = server_salt demo_keys
 \<and> client_seq_num demo_peer_state = server_seq_num (demo_keyed_state [])
 \<and> fst (encrypt toy_crypto [1, 2, 3] DATA_CONTENT_TYPE (demo_keyed_state [])) =
      Inr [65, 65, 65, 65, 65, 65, 65, 65, 77, 78, 79,
           0, 0, 0, 0, 0, 0, 0, 0, 0, 0, 0, 0, 0, 0, 3, 86]
 \<and> fst (decrypt toy_crypto [65, 65, 65, 65, 65, 65, 65, 65, 77, 78, 79,
           0, 0, 0, 0, 0, 0, 0, 0, 0, 0, 0, 0, 0, 0, 3, 86]
         DATA_CONTENT_TYPE VERSION demo_peer_state) = Inr [1, 2, 3]
 \<and> fst (decrypt toy_crypto [65, 65, 65, 65, 65, 65, 65, 65, 76, 78, 79,
           0, 0, 0, 0, 0, 0, 0, 0, 0, 0, 0, 0, 0, 0, 3, 86]
         DATA_CONTENT_TYPE VERSION demo_peer_state) = Inl AuthenticationError
 \<and> fst (decrypt toy_crypto [65, 65, 65, 65, 65, 65, 65, 65, 77, 78, 79,
           0, 0, 0, 0, 0, 0, 0, 0, 0, 0, 0, 0, 0, 0, 3, 87]
         DATA_CONTENT_TYPE VERSION demo_peer_state) = Inl AuthenticationError"
proof -
  let ?P = "[65, 65, 65, 65, 65, 65, 65, 65, 77, 78, 79,
             0, 0, 0, 0, 0, 0, 0, 0, 0, 0, 0, 0, 0, 0, 3, 86] :: bytes"
  have h: "session_keys (demo_keyed_state []) = Some demo_keys"
      "session_keys demo_peer_state = Some demo_peer_keys"
      "client_key demo_peer_keys = server_key demo_keys"
      "client_salt demo_peer_keys = server_salt demo_keys"
      "client_seq_num demo_peer_state = server_seq_num (demo_keyed_state [])"
      "server_seq_num (demo_keyed_state []) < 2 ^ 64"
      "DATA_CONTENT_TYPE < 2 ^ 8" "length [1, 2, 3 :: byte] < 2 ^ 16"
    by (simp_all add: demo_defs)
  from aead_round_trip [OF toy_aead_contract h]
  obtain payload where
    p: "fst (encrypt toy_crypto [1, 2, 3] DATA_CONTENT_TYPE (demo_keyed_state [])) = Inr payload"
    and d: "fst (decrypt toy_crypto payload DATA_CONTENT_TYPE VERSION demo_peer_state)
              = Inr [1, 2, 3]"
    and t: "\<And>i b. 8 \<le> i \<and> i < length payload \<and> b \<noteq> payload ! i \<Longrightarrow>
              fst (decrypt toy_crypto (payload[i := b]) DATA_CONTENT_TYPE VERSION demo_peer_state)
                = Inl AuthenticationError"
    by blast
  from p have e: "payload = ?P" by (simp add: demo_encrypt_value)
  have "fst (decrypt toy_crypto (?P[8 := 76]) DATA_CONTENT_TYPE VERSION demo_peer_state)
          = Inl AuthenticationError"
    using t [of 8 76] by (simp add: e)
  moreover have "fst (decrypt toy_crypto (?P[26 := 87]) DATA_CONTENT_TYPE VERSION demo_peer_state)
          = Inl AuthenticationError"
    using t [of 26 87] by (simp add: e)
  ultimately show ?thesis
    using toy_aead_contract h(1-5) p d by (simp add: e)
qed

text \<open>
  The claim as first stated fails twice.  One object encrypts under its server
  write key and decrypts under its client write key, so with one \<open>SessionKeys\<close> the
  payload \<open>encrypt\<close> produced does not pass \<open>decrypt\<close> at the same sequence number,
  content type and version.  And a plaintext of \<open>2^16\<close> bytes is not encrypted at
  all: its length does not fit the associated data.
\<close>

theorem aead_round_trip_counterexample:
  "aead_contract toy_crypto
 \<and> client_seq_num (demo_keyed_state []) = server_seq_num (demo_keyed_state [])
 \<and> fst (encrypt toy_crypto [1, 2, 3] DATA_CONTENT_TYPE (demo_keyed_state [])) =
      Inr [65, 65, 65, 65, 65, 65, 65, 65, 77, 78, 79,
           0, 0, 0, 0, 0, 0, 0, 0, 0, 0, 0, 0, 0, 0, 3, 86]
 \<and> fst (decrypt toy_crypto [65, 65, 65, 65, 65, 65, 65, 65, 77, 78, 79,
           0, 0, 0, 0, 0, 0, 0, 0, 0, 0, 0, 0, 0, 0, 3, 86]
         DATA_CONTENT_TYPE VERSION (demo_keyed_state [])) = Inl AuthenticationError
 \<and> fst (encrypt toy_crypto (replicate 65536 0) DATA_CONTENT_TYPE (demo_keyed_state [])) =
      Inl StructError"
proof -
  have "fst (decrypt toy_crypto [65, 65, 65, 65, 65, 65, 65, 65, 77, 78, 79,
           0, 0, 0, 0, 0, 0, 0, 0, 0, 0, 0, 0, 0, 0, 3, 86]
         DATA_CONTENT_TYPE VERSION (demo_keyed_state [])) = Inl AuthenticationError"
    by (simp add: decrypt_eq to_ad_eq demo_defs toy_defs replicate_eval
           numeral_2_eq_2 [symmetric])
  moreover have "fst (encrypt toy_crypto (replicate 65536 0) DATA_CONTENT_TYPE
                   (demo_keyed_state [])) = Inl StructError"
    by (simp add: encrypt_eq to_ad_eq demo_defs)
  moreover have "client_seq_num (demo_keyed_state []) = server_seq_num (demo_keyed_state [])"
    by (simp add: demo_defs)
  ultimately show ?thesis
    using toy_aead_contract by (simp add: demo_encrypt_value)
qed

subsection \<open>The sequence counters\<close>

lemma encrypt_counters:
  "session_keys s = Some keys \<Longrightarrow>
   to_ad (server_seq_num s) tls_type VERSION (length dat) = Inr ad \<Longrightarrow>
   snd (encrypt lib dat tls_type s) = s\<lparr>server_seq_num := server_seq_num s + 1\<rparr>
   \<and> \<not> isl (fst (encrypt lib dat tls_type s))"
  by (simp add: encrypt_eq)

lemma encrypt_failure: "fst (encrypt lib dat tls_type s) = Inl e \<Longrightarrow> snd (encrypt lib dat tls_type s) = s"
  by (simp add: encrypt_eq split: option.splits sum.splits)

lemma decrypt_counters:
  "session_keys s = Some keys \<Longrightarrow>
   to_ad (client_seq_num s) tls_type tls_version
     (length (drop 8 (take (length dat - 16) dat))) = Inr ad \<Longrightarrow>
   snd (decrypt lib dat tls_type tls_version s) = s\<lparr>client_seq_num := client_seq_num s + 1\<rparr>
   \<and> fst (decrypt lib dat tls_type tls_version s) =
       (case decrypt_and_verify lib (client_key keys) (client_salt keys @ take 8 dat) ad
               (drop 8 (take (length dat - 16) dat)) (drop (length dat - 16) dat) of
          None \<Rightarrow> Inl AuthenticationError
        | Some plaintext \<Rightarrow> Inr plaintext)"
  by (simp add: decrypt_eq)

lemma decrypt_failure:
  "fst (decrypt lib dat tls_type tls_version s) = Inl e \<Longrightarrow> e \<noteq> AuthenticationError \<Longrightarrow>
   snd (decrypt lib dat tls_type tls_version s) = s"
  by (simp add: decrypt_eq split: option.splits sum.splits)

text \<open>
  C6.  Both counters are 0 in the object \<^verbatim>\<open>__init__\<close> builds.  \<open>encrypt\<close> adds exactly 1
  to the server counter when it succeeds and leaves the object as it is when it
  fails; it never touches the client counter.  \<open>decrypt\<close>, once the keys are there
  and the associated data is packed (the decryption is attempted), adds exactly 1
  to the client counter whether the tag verifies or \<open>AuthenticationError\<close> is
  raised, and never touches the server counter; a failure before that point
  leaves the object as it is.  Hence \<open>read\<close> moves only the client counter, by 0 or
  1, \<open>write\<close> only the server counter, by 0 or 1, the handshake each by at most 1,
  and over any sequence of \<open>read\<close> and \<open>write\<close> calls neither counter decreases,
  the client counter growing by at most the number of reads and the server
  counter by at most the number of writes.
\<close>

theorem sequence_counters:
  "client_seq_num (initial_state sk key cs sid) = 0
 \<and> server_seq_num (initial_state sk key cs sid) = 0
 \<and> (session_keys s = Some keys
      \<and> to_ad (server_seq_num s) tls_type VERSION (length dat) = Inr ad \<longrightarrow>
        snd (encrypt lib dat tls_type s) = s\<lparr>server_seq_num := server_seq_num s + 1\<rparr>
      \<and> \<not> isl (fst (encrypt lib dat tls_type s)))
 \<and> (fst (encrypt lib dat tls_type s) = Inl e \<longrightarrow> snd (encrypt lib dat tls_type s) = s)
 \<and> (session_keys s = Some keys
      \<and> to_ad (client_seq_num s) tls_type tls_version
           (length (drop 8 (take (length dat - 16) dat))) = Inr ad \<longrightarrow>
        snd (decrypt lib dat tls_type tls_version s) =
          s\<lparr>client_seq_num := client_seq_num s + 1\<rparr>
      \<and> fst (decrypt lib dat tls_type tls_version s) =
          (case decrypt_and_verify lib (client_key keys) (client_salt keys @ take 8 dat) ad
                  (drop 8 (take (length dat - 16) dat)) (drop (length dat - 16) dat) of
             None \<Rightarrow> Inl AuthenticationError
           | Some plaintext \<Rightarrow> Inr plaintext))
 \<and> (fst (decrypt lib dat tls_type tls_version s) = Inl e \<and> e \<noteq> AuthenticationError \<longrightarrow>
        snd (decrypt lib dat tls_type tls_version s) = s)
 \<and> seq_step (Suc 0) 0 (read lib)
 \<and> seq_step 0 (Suc 0) (tls_write lib msg)
 \<and> seq_step (Suc 0) (Suc 0) (shake_hands lib)
 \<and> client_seq_num s \<le> client_seq_num (run_ops lib ops s)
 \<and> client_seq_num (run_ops lib ops s) \<le> client_seq_num s + sum_list (map op_reads ops)
 \<and> server_seq_num s \<le> server_seq_num (run_ops lib ops s)
 \<and> server_seq_num (run_ops lib ops s) \<le> server_seq_num s + sum_list (map op_writes ops)"
proof -
  have "client_seq_num (initial_state sk key cs sid) = 0"
    and "server_seq_num (initial_state sk key cs sid) = 0"
    by (simp_all add: initial_state_def)
  then show ?thesis
    using encrypt_counters [of s keys tls_type dat ad lib] encrypt_failure [of lib dat tls_type s e]
      decrypt_counters [of s keys tls_type tls_version dat ad lib]
      decrypt_failure [of lib dat tls_type tls_version s e]
      seq_step_read [of lib] seq_step_tls_write [of lib msg] seq_step_shake_hands [of lib]
      run_ops_counters [of s lib ops]
    by blast
qed

lemma demo_decrypt_value:
  "decrypt toy_crypto (replicate 40 0) DATA_CONTENT_TYPE VERSION (demo_keyed_state []) =
     (Inl AuthenticationError, (demo_keyed_state [])\<lparr>client_seq_num := 1\<rparr>)"
  by (simp add: decrypt_eq to_ad_eq demo_defs toy_defs replicate_eval
           numeral_2_eq_2 [symmetric])

theorem sequence_counters_witness:
  "session_keys (demo_keyed_state []) = Some demo_keys
 \<and> to_ad (client_seq_num (demo_keyed_state [])) DATA_CONTENT_TYPE VERSION
      (length (drop 8 (take (length (replicate 40 (0 :: byte)) - 16) (replicate 40 (0 :: byte)))))
      = Inr [0, 0, 0, 0, 0, 0, 0, 0, 23, 3, 3, 0, 16]
 \<and> client_seq_num (demo_keyed_state []) = 0
 \<and> fst (decrypt toy_crypto (replicate 40 0) DATA_CONTENT_TYPE VERSION (demo_keyed_state []))
      = Inl AuthenticationError
 \<and> client_seq_num
      (snd (decrypt toy_crypto (replicate 40 0) DATA_CONTENT_TYPE VERSION (demo_keyed_state [])))
      = 1
 \<and> server_seq_num
      (snd (decrypt toy_crypto (replicate 40 0) DATA_CONTENT_TYPE VERSION (demo_keyed_state [])))
      = 0
 \<and> fst (encrypt toy_crypto [1, 2, 3] DATA_CONTENT_TYPE (demo_keyed_state [])) =
      Inr [65, 65, 65, 65, 65, 65, 65, 65, 77, 78, 79,
           0, 0, 0, 0, 0, 0, 0, 0, 0, 0, 0, 0, 0, 0, 3, 86]
 \<and> server_seq_num (snd (encrypt toy_crypto [1, 2, 3] DATA_CONTENT_TYPE (demo_keyed_state []))) = 1
 \<and> client_seq_num (snd (encrypt toy_crypto [1, 2, 3] DATA_CONTENT_TYPE (demo_keyed_state []))) = 0
 \<and> client_seq_num (demo_keyed_state []) \<le>
      client_seq_num (run_ops toy_crypto [Read, Write [1, 2, 3], Read] (demo_keyed_state []))"
proof -
  have k: "session_keys (demo_keyed_state []) = Some demo_keys"
    by (simp add: demo_defs)
  have a: "to_ad (client_seq_num (demo_keyed_state [])) DATA_CONTENT_TYPE VERSION
      (length (drop 8 (take (length (replicate 40 (0 :: byte)) - 16) (replicate 40 (0 :: byte)))))
      = Inr [0, 0, 0, 0, 0, 0, 0, 0, 23, 3, 3, 0, 16]"
    by (simp add: to_ad_eq demo_defs be_bytes_numeral(1-3))
  have z: "client_seq_num (demo_keyed_state []) = 0" "server_seq_num (demo_keyed_state []) = 0"
    by (simp_all add: demo_defs)
  from sequence_counters [of _ _ _ _ "demo_keyed_state []" demo_keys DATA_CONTENT_TYPE
         "replicate 40 0" "[0, 0, 0, 0, 0, 0, 0, 0, 23, 3, 3, 0, 16]" toy_crypto _ VERSION _
         "[Read, Write [1, 2, 3], Read]"] k a
  have "snd (decrypt toy_crypto (replicate 40 0) DATA_CONTENT_TYPE VERSION (demo_keyed_state []))
          = (demo_keyed_state [])\<lparr>client_seq_num := client_seq_num (demo_keyed_state []) + 1\<rparr>"
    and "client_seq_num (demo_keyed_state []) \<le>
      client_seq_num (run_ops toy_crypto [Read, Write [1, 2, 3], Read] (demo_keyed_state []))"
    by blast+
  then show ?thesis
    using k a z by (simp add: demo_decrypt_value demo_encrypt_value)
qed

section \<open>The key schedule\<close>

lemma derive_keys_eq:
  "derive_keys lib enc client_random s =
     (if length enc \<noteq> KEY_LENGTH then (Inl CiphertextLengthError, s)
      else case py_pow (from_bytes enc) (rsa_d (priv_key s)) (rsa_n (priv_key s)) of
             Inl e \<Rightarrow> (Inl e, s)
           | Inr x \<Rightarrow>
               (case to_bytes KEY_LENGTH x of
                  Inl e \<Rightarrow> (Inl e, s)
                | Inr block \<Rightarrow>
                    (case unpad_premaster block of
                       Inl e \<Rightarrow> (Inl e, s)
                     | Inr premaster_secret \<Rightarrow>
                         (Inr (key_schedule lib premaster_secret client_random (server_random s)),
                          s))))"
  by (simp add: derive_keys_def key_schedule_def Let_def tls_m_defs slice_def
           split: sum.splits)

lemma demo_rsa:
  assumes "length bs = KEY_LENGTH"
  shows "py_pow (from_bytes bs) (rsa_d demo_key) (rsa_n demo_key) = Inr (from_bytes bs)"
proof -
  have "from_bytes bs < 256 ^ 512" using from_bytes_lt [of bs] assms by simp
  then show ?thesis by (simp add: py_pow_def demo_key_def)
qed

lemma demo_state_key:
  "priv_key (demo_state bs) = demo_key"
  "server_random (demo_state bs) = replicate 32 0x41"
  by (simp_all add: demo_state_def demo_delivery_def initial_state_def get_random_bytes_def)

lemma derive_keys_unpad:
  assumes "length enc = KEY_LENGTH"
    and "py_pow (from_bytes enc) (rsa_d (priv_key s)) (rsa_n (priv_key s)) = Inr x"
    and "to_bytes KEY_LENGTH x = Inr block"
  shows "derive_keys lib enc cr s =
           (case unpad_premaster block of
              Inl e \<Rightarrow> (Inl e, s)
            | Inr pm \<Rightarrow> (Inr (key_schedule lib pm cr (server_random s)), s))"
  using assms by (simp add: derive_keys_eq)

text \<open>
  C3.  \<open>derive_keys\<close> on a 512-byte ciphertext whose RSA decryption is the 512-byte
  block \<open>block\<close>.  When the block does not begin with \<open>0x00 0x02\<close>, \<open>derive_keys\<close>
  fails at the assertion of line 148 (\<open>PaddingError\<close>).  When it does, the block
  is either \<open>0x00 0x02 || padding || 0x00 || sfx\<close> with no zero byte in the
  padding, so that this \<open>0x00\<close> is the first at index 2 or later, and then
  \<open>derive_keys\<close> takes \<open>sfx\<close> as the premaster secret and returns the keys derived
  from it if \<open>sfx\<close> has 48 bytes, and fails at the assertion of line 150
  (\<open>InvalidLengthError\<close>) if it has not; or the block has no zero byte from index
  2 on, and \<open>derive_keys\<close> fails at the assertion of line 150.  These are the only
  outcomes, and the object is left as it was in each.  Both assertions raise
  Python's \<^verbatim>\<open>AssertionError\<close>; the two names tell the sites apart.
\<close>

theorem derive_keys_padding:
  assumes "length enc = KEY_LENGTH"
    and "py_pow (from_bytes enc) (rsa_d (priv_key s)) (rsa_n (priv_key s)) = Inr x"
    and "to_bytes KEY_LENGTH x = Inr block"
  shows "length block = KEY_LENGTH
       \<and> (\<not> startswith block PKCS_PREFIX \<longrightarrow>
            derive_keys lib enc cr s = (Inl PaddingError, s))
       \<and> (startswith block PKCS_PREFIX \<longrightarrow>
            (\<forall>padding sfx.
                block = PKCS_PREFIX @ padding @ 0x00 # sfx \<and> 0x00 \<notin> set padding \<longrightarrow>
                derive_keys lib enc cr s =
                  (if length sfx = 48
                   then (Inr (key_schedule lib sfx cr (server_random s)), s)
                   else (Inl InvalidLengthError, s)))
          \<and> (0x00 \<notin> set (drop 2 block) \<longrightarrow>
                derive_keys lib enc cr s = (Inl InvalidLengthError, s))
          \<and> (0x00 \<in> set (drop 2 block) \<longrightarrow>
                (\<exists>padding sfx.
                   block = PKCS_PREFIX @ padding @ 0x00 # sfx \<and> 0x00 \<notin> set padding)))"
proof (intro conjI impI allI)
  show l: "length block = KEY_LENGTH" by (rule to_bytes_length [OF assms(3)])
  note d = derive_keys_unpad [OF assms, of lib cr]
  {
    assume "\<not> startswith block PKCS_PREFIX"
    then show "derive_keys lib enc cr s = (Inl PaddingError, s)"
      by (simp add: d unpad_bad_prefix)
  next
    fix padding sfx
    assume "block = PKCS_PREFIX @ padding @ 0x00 # sfx \<and> 0x00 \<notin> set padding"
    then have "unpad_premaster block =
                 (if length sfx = 48 then Inr sfx else Inl InvalidLengthError)"
      using unpad_separator by blast
    then show "derive_keys lib enc cr s =
                 (if length sfx = 48
                  then (Inr (key_schedule lib sfx cr (server_random s)), s)
                  else (Inl InvalidLengthError, s))"
      by (simp add: d)
  next
    assume "startswith block PKCS_PREFIX" and "0x00 \<notin> set (drop 2 block)"
    then have "unpad_premaster block = Inl InvalidLengthError"
      using l by (intro unpad_no_separator) simp_all
    then show "derive_keys lib enc cr s = (Inl InvalidLengthError, s)"
      by (simp add: d)
  next
    assume p: "startswith block PKCS_PREFIX" and z: "0x00 \<in> set (drop 2 block)"
    from z obtain padding sfx where
      e: "drop 2 block = padding @ 0x00 # sfx" and n: "0x00 \<notin> set padding"
      by (auto dest: split_list_first)
    have "block = take 2 block @ drop 2 block" by simp
    also have "take 2 block = PKCS_PREFIX" using p by (simp add: startswith_def numeral_2_eq_2)
    finally have "block = PKCS_PREFIX @ padding @ 0x00 # sfx" by (simp add: e)
    with n show "\<exists>padding sfx.
        block = PKCS_PREFIX @ padding @ 0x00 # sfx \<and> 0x00 \<notin> set padding"
      by blast
  }
qed

theorem derive_keys_padding_witness:
  "length demo_block = KEY_LENGTH
 \<and> py_pow (from_bytes demo_block) (rsa_d (priv_key (demo_state [])))
      (rsa_n (priv_key (demo_state []))) = Inr (from_bytes demo_block)
 \<and> to_bytes KEY_LENGTH (from_bytes demo_block) = Inr demo_block
 \<and> startswith demo_block PKCS_PREFIX
 \<and> demo_block = PKCS_PREFIX @ replicate 461 0xFF @ 0x00 # replicate 48 0x22
 \<and> 0x00 \<notin> set (replicate 461 (0xFF :: byte))
 \<and> derive_keys toy_crypto demo_block (replicate 32 0x11) (demo_state []) =
      (Inr (key_schedule toy_crypto (replicate 48 0x22) (replicate 32 0x11) (replicate 32 0x41)),
       demo_state [])
 \<and> \<not> startswith (replicate 512 0x00) PKCS_PREFIX
 \<and> derive_keys toy_crypto (replicate 512 0x00) (replicate 32 0x11) (demo_state []) =
      (Inl PaddingError, demo_state [])"
proof -
  have 1: "py_pow (from_bytes demo_block) (rsa_d (priv_key (demo_state [])))
      (rsa_n (priv_key (demo_state []))) = Inr (from_bytes demo_block)"
    unfolding demo_state_key by (rule demo_rsa [OF length_demo_block])
  have 2: "to_bytes KEY_LENGTH (from_bytes demo_block) = Inr demo_block"
    by (rule to_bytes_from_bytes [OF length_demo_block])
  have b: "demo_block = PKCS_PREFIX @ replicate 461 0xFF @ 0x00 # replicate 48 0x22"
    by (simp add: demo_block_def)
  have z: "0x00 \<notin> set (replicate 461 (0xFF :: byte))" by simp
  have l0: "length (replicate 512 (0x00 :: byte)) = KEY_LENGTH" by simp
  have 3: "py_pow (from_bytes (replicate 512 0x00)) (rsa_d (priv_key (demo_state [])))
      (rsa_n (priv_key (demo_state []))) = Inr (from_bytes (replicate 512 0x00))"
    unfolding demo_state_key by (rule demo_rsa [OF l0])
  have 4: "to_bytes KEY_LENGTH (from_bytes (replicate 512 0x00)) = Inr (replicate 512 0x00)"
    by (rule to_bytes_from_bytes [OF l0])
  have n: "\<not> startswith (replicate 512 0x00) PKCS_PREFIX"
    by (simp add: startswith_def numeral_2_eq_2 replicate_eval)
  from derive_keys_padding [OF length_demo_block 1 2, of toy_crypto "replicate 32 0x11"]
       startswith_demo_block b z
  have "derive_keys toy_crypto demo_block (replicate 32 0x11) (demo_state []) =
      (if length (replicate 48 (0x22 :: byte)) = 48
       then (Inr (key_schedule toy_crypto (replicate 48 0x22) (replicate 32 0x11)
                    (server_random (demo_state []))), demo_state [])
       else (Inl InvalidLengthError, demo_state []))"
    by blast
  moreover
  from derive_keys_padding [OF l0 3 4, of toy_crypto "replicate 32 0x11"] n
  have "derive_keys toy_crypto (replicate 512 0x00) (replicate 32 0x11) (demo_state []) =
      (Inl PaddingError, demo_state [])"
    by blast
  ultimately show ?thesis
    using length_demo_block 1 2 startswith_demo_block b z n by (simp add: demo_state_key)
qed

lemma unpad_premaster_length: "unpad_premaster block = Inr pm \<Longrightarrow> length pm = 48"
  by (auto simp: unpad_premaster_def Let_def split: if_splits)

lemma split_key_block:
  assumes "length kb = 40"
  shows "take 16 kb @ take 16 (drop 16 kb) @ take 4 (drop 32 kb) @ take 4 (drop 36 kb) = kb"
proof -
  have a: "take 4 (drop 36 kb) = drop 36 kb" using assms by simp
  have b: "take 4 (drop 32 kb) @ drop 36 kb = drop 32 kb"
    using append_take_drop_id [of 4 "drop 32 kb"] by simp
  have c: "take 16 (drop 16 kb) @ drop 32 kb = drop 16 kb"
    using append_take_drop_id [of 16 "drop 16 kb"] by simp
  show ?thesis by (simp add: a b c)
qed

lemma key_schedule_block:
  "client_key (key_schedule lib pm cr sr) @ server_key (key_schedule lib pm cr sr)
     @ client_salt (key_schedule lib pm cr sr) @ server_salt (key_schedule lib pm cr sr)
   = tls_prf lib (master_secret (key_schedule lib pm cr sr)) (ascii ''key expansion'') (sr @ cr) 40"
  using split_key_block [of "tls_prf lib (tls_prf lib pm (ascii ''master secret'') (cr @ sr) 48)
                              (ascii ''key expansion'') (sr @ cr) 40"]
  by (simp add: key_schedule_def Let_def)

lemma key_schedule_lengths:
  "length (master_secret (key_schedule lib pm cr sr)) = 48"
  "length (client_key (key_schedule lib pm cr sr)) = 16"
  "length (server_key (key_schedule lib pm cr sr)) = 16"
  "length (client_salt (key_schedule lib pm cr sr)) = 4"
  "length (server_salt (key_schedule lib pm cr sr)) = 4"
  by (simp_all add: key_schedule_def Let_def)

text \<open>
  C4.  Whenever the RSA step of \<open>derive_keys\<close> yields a premaster secret (which then
  has 48 bytes), for all client and server randoms, \<open>derive_keys\<close> returns the
  session keys of the specification's key schedule and leaves the object as it
  is: the master secret is \<open>prf(premaster, "master secret", client_random ||
  server_random, 48)\<close>; the key block \<open>prf(master, "key expansion", server_random
  || client_random, 40)\<close> is the client write key, the server write key, the
  client write salt and the server write salt in this order; the master secret
  has 48 bytes, each key 16 and each salt 4.
\<close>

theorem derive_keys_schedule:
  assumes "length enc = KEY_LENGTH"
    and "py_pow (from_bytes enc) (rsa_d (priv_key s)) (rsa_n (priv_key s)) = Inr x"
    and "to_bytes KEY_LENGTH x = Inr block"
    and "unpad_premaster block = Inr pm"
  shows "derive_keys lib enc cr s = (Inr (key_schedule lib pm cr (server_random s)), s)
       \<and> length pm = 48
       \<and> master_secret (key_schedule lib pm cr (server_random s)) =
           tls_prf lib pm (ascii ''master secret'') (cr @ server_random s) 48
       \<and> client_key (key_schedule lib pm cr (server_random s))
           @ server_key (key_schedule lib pm cr (server_random s))
           @ client_salt (key_schedule lib pm cr (server_random s))
           @ server_salt (key_schedule lib pm cr (server_random s)) =
           tls_prf lib (master_secret (key_schedule lib pm cr (server_random s)))
             (ascii ''key expansion'') (server_random s @ cr) 40
       \<and> length (master_secret (key_schedule lib pm cr (server_random s))) = 48
       \<and> length (client_key (key_schedule lib pm cr (server_random s))) = 16
       \<and> length (server_key (key_schedule lib pm cr (server_random s))) = 16
       \<and> length (client_salt (key_schedule lib pm cr (server_random s))) = 4
       \<and> length (server_salt (key_schedule lib pm cr (server_random s))) = 4"
proof -
  have "derive_keys lib enc cr s = (Inr (key_schedule lib pm cr (server_random s)), s)"
    using assms by (simp add: derive_keys_eq)
  moreover have "master_secret (key_schedule lib pm cr (server_random s)) =
           tls_prf lib pm (ascii ''master secret'') (cr @ server_random s) 48"
    by (simp add: key_schedule_def Let_def)
  ultimately show ?thesis
    using unpad_premaster_length [OF assms(4)] key_schedule_block [of lib pm cr "server_random s"]
    by (simp add: key_schedule_lengths)
qed

theorem derive_keys_schedule_witness:
  "length demo_block = KEY_LENGTH
 \<and> py_pow (from_bytes demo_block) (rsa_d (priv_key (demo_state [])))
      (rsa_n (priv_key (demo_state []))) = Inr (from_bytes demo_block)
 \<and> to_bytes KEY_LENGTH (from_bytes demo_block) = Inr demo_block
 \<and> unpad_premaster demo_block = Inr (replicate 48 0x22)
 \<and> derive_keys toy_crypto demo_block (replicate 32 0x11) (demo_state []) =
      (Inr (key_schedule toy_crypto (replicate 48 0x22) (replicate 32 0x11) (replicate 32 0x41)),
       demo_state [])
 \<and> length (master_secret
      (key_schedule toy_crypto (replicate 48 0x22) (replicate 32 0x11) (replicate 32 0x41))) = 48
 \<and> length (server_salt
      (key_schedule toy_crypto (replicate 48 0x22) (replicate 32 0x11) (replicate 32 0x41))) = 4"
proof -
  note p = demo_state_key(1) [of "[]"] and r = demo_state_key(2) [of "[]"]
  have 1: "py_pow (from_bytes demo_block) (rsa_d (priv_key (demo_state [])))
      (rsa_n (priv_key (demo_state []))) = Inr (from_bytes demo_block)"
    unfolding p by (rule demo_rsa [OF length_demo_block])
  have 2: "to_bytes KEY_LENGTH (from_bytes demo_block) = Inr demo_block"
    by (rule to_bytes_from_bytes [OF length_demo_block])
  from derive_keys_schedule [OF length_demo_block 1 2 unpad_demo_block,
         of toy_crypto "replicate 32 0x11"]
  show ?thesis
    using length_demo_block 1 2 unpad_demo_block by (simp add: r)
qed

section \<open>The handshake\<close>

lemma header_type: "drop_bit 24 (from_bytes [t, a, b, c]) = unat t"
proof -
  have "from_bytes [t, a, b, c] = unat t * 2 ^ 24 + from_bytes [a, b, c]"
    by (simp add: from_bytes_Cons)
  moreover have "from_bytes [a, b, c] < 2 ^ 24"
    using from_bytes_lt [of "[a, b, c]"] by simp
  ultimately show ?thesis by (simp add: drop_bit_eq_div)
qed

lemma header_len: "take_bit 24 (from_bytes [t, a, b, c]) = from_bytes [a, b, c]"
proof -
  have "from_bytes [t, a, b, c] = unat t * 2 ^ 24 + from_bytes [a, b, c]"
    by (simp add: from_bytes_Cons)
  moreover have "from_bytes [a, b, c] < 2 ^ 24"
    using from_bytes_lt [of "[a, b, c]"] by simp
  ultimately show ?thesis by (simp add: take_bit_eq_mod)
qed

lemma read_encrypted_handshake:
  assumes i: "inbound (sock s) = c0 # w1 # w0 # m1 # m0 # payload @ rest"
    and c0: "unat c0 = HANDSHAKE_CONTENT_TYPE"
    and l: "length payload = unat m1 * 256 + unat m0"
    and k: "session_keys s = Some keys"
    and ad: "to_ad (client_seq_num s) HANDSHAKE_CONTENT_TYPE (unat w1 * 256 + unat w0)
               (length (drop 8 (take (length payload - 16) payload))) = Inr ad"
    and d: "decrypt_and_verify lib (client_key keys) (client_salt keys @ take 8 payload) ad
               (drop 8 (take (length payload - 16) payload)) (drop (length payload - 16) payload)
             = Some (t # a # b # c # body)"
  shows "read_handshake_record lib expected_type True s =
     (if unat t = expected_type
      then Inr \<lparr>hs_type = unat t, hs_data = take (from_bytes [a, b, c]) body\<rparr>
      else Inl (UnexpectedHandshakeType (unat t) expected_type),
      s\<lparr>sock := (sock s)\<lparr>inbound := rest\<rparr>, client_seq_num := client_seq_num s + 1,
        handshake_log := handshake_log s @ t # a # b # c # body\<rparr>)"
proof -
  let ?s1 = "s\<lparr>sock := (sock s)\<lparr>inbound := rest\<rparr>\<rparr>"
  have r: "read_record HANDSHAKE_CONTENT_TYPE s =
             (Inr \<lparr>rec_content_type = HANDSHAKE_CONTENT_TYPE,
                    rec_version = unat w1 * 256 + unat w0, rec_data = payload\<rparr>, ?s1)"
    using c0 read_record_header [OF i l, of HANDSHAKE_CONTENT_TYPE] by simp
  have dc: "decrypt lib payload HANDSHAKE_CONTENT_TYPE (unat w1 * 256 + unat w0) ?s1 =
              (Inr (t # a # b # c # body), ?s1\<lparr>client_seq_num := client_seq_num s + 1\<rparr>)"
    using k ad d by (simp add: decrypt_eq)
  show ?thesis
    by (simp add: read_handshake_record_def tls_bind_def r dc tls_modify_def tls_lift_def
          unpack_I_def header_type header_len tls_return_def tls_raise_def slice_def Let_def)
qed

lemma write_change_cipher_spec:
  "write_record \<lparr>rec_content_type = CHANGE_CIPHER_SPEC_CONTENT_TYPE, rec_version = VERSION,
                  rec_data = [0x01]\<rparr> s =
     (Inr (), s\<lparr>sock := (sock s)\<lparr>outbound := outbound (sock s) @ [20, 3, 3, 0, 1, 1]\<rparr>\<rparr>)"
  by (simp add: write_record_def tls_m_defs send_def be_bytes_numeral(1-3))

lemma get_server_finished_eq:
  "session_keys s = Some keys \<Longrightarrow>
   get_server_finished lib s =
     (Inr (tls_prf lib (master_secret keys) (ascii ''server finished'')
             (digest_bytes (sha256_digest lib (handshake_log s))) 12), s)"
  by (simp add: get_server_finished_def tls_m_defs get_session_keys_def Let_def)

lemma write_encrypted_finished:
  assumes "aead_contract lib" and "session_keys s = Some keys" and "server_seq_num s < 2 ^ 64"
    and "length verify_data = 12"
    and "encrypt_and_digest lib (server_key keys) (server_salt keys @ get_random_bytes 8)
           (be_bytes 8 (server_seq_num s) @ [22, 3, 3, 0, 16]) ([20, 0, 0, 12] @ verify_data)
         = (ciphertext, tag)"
  shows "write_handshake_record lib
           \<lparr>hs_type = FINISHED_HANDSHAKE_TYPE, hs_data = verify_data\<rparr> True s =
     (Inr (),
      s\<lparr>sock := (sock s)\<lparr>outbound := outbound (sock s) @ [22, 3, 3, 0, 40]
                                          @ get_random_bytes 8 @ ciphertext @ tag\<rparr>,
        server_seq_num := server_seq_num s + 1,
        handshake_log := handshake_log s @ get_random_bytes 8 @ ciphertext @ tag\<rparr>)"
proof -
  from assms(1, 5) have lc: "length ciphertext = 16" and lt: "length tag = 16"
    unfolding aead_contract_def using assms(4) by fastforce+
  have ad: "be_bytes 8 (server_seq_num s) @ [22, 3, 3, 0, 16] =
            be_bytes 8 (server_seq_num s) @ be_bytes 1 HANDSHAKE_CONTENT_TYPE
              @ be_bytes 2 VERSION @ be_bytes 2 (length ([20, 0, 0, 12] @ verify_data))"
    using assms(4) by (simp add: be_bytes_numeral(1-3))
  have "encrypt lib ([20, 0, 0, 12] @ verify_data) HANDSHAKE_CONTENT_TYPE s =
             (Inr (get_random_bytes 8 @ ciphertext @ tag),
              s\<lparr>server_seq_num := server_seq_num s + 1\<rparr>)"
    using assms(4)
    by (intro encrypt_payload [OF assms(2) assms(3) _ _ ad assms(5)]) simp_all
  then have e: "encrypt lib (20 # 0 # 0 # 12 # verify_data) HANDSHAKE_CONTENT_TYPE s =
             (Inr (get_random_bytes 8 @ ciphertext @ tag),
              s\<lparr>server_seq_num := server_seq_num s + 1\<rparr>)"
    by simp
  have l: "length (get_random_bytes 8 @ ciphertext @ tag) = 40"
    by (simp add: lc lt get_random_bytes_def)
  show ?thesis
    using assms(4) l
    by (simp add: write_handshake_record_def tls_bind_def tls_lift_def tls_modify_def e
          write_record_def send_def be_bytes_numeral(1-3))
qed

text \<open>
  The second half of the handshake, from an object that holds the keys: the
  stream delivers a ChangeCipherSpec record and a Handshake record whose payload
  verifies under the client write key and decrypts to a message of type \<open>0x14\<close>.
  Nothing more is asked of the message: its length bytes \<open>a b c\<close> and its body are
  free.
\<close>

lemma shake_hands_finished_accepts:
  assumes contract: "aead_contract lib"
    and k: "session_keys s = Some keys"
    and sq: "server_seq_num s < 2 ^ 64"
    and i: "inbound (sock s) =
              0x14 # v1 # v0 # l1 # l0 # ccs @ 0x16 # w1 # w0 # m1 # m0 # payload @ rest"
    and lc: "length ccs = unat l1 * 256 + unat l0"
    and lp: "length payload = unat m1 * 256 + unat m0"
    and ad: "to_ad (client_seq_num s) HANDSHAKE_CONTENT_TYPE (unat w1 * 256 + unat w0)
               (length (drop 8 (take (length payload - 16) payload))) = Inr ad"
    and d: "decrypt_and_verify lib (client_key keys) (client_salt keys @ take 8 payload) ad
               (drop 8 (take (length payload - 16) payload)) (drop (length payload - 16) payload)
             = Some (0x14 # a # b # c # body)"
    and e: "encrypt_and_digest lib (server_key keys) (server_salt keys @ get_random_bytes 8)
              (be_bytes 8 (server_seq_num s) @ [22, 3, 3, 0, 16])
              ([20, 0, 0, 12] @
               tls_prf lib (master_secret keys) (ascii ''server finished'')
                 (digest_bytes (sha256_digest lib (handshake_log s @ 0x14 # a # b # c # body))) 12)
            = (ciphertext, tag)"
  shows "shake_hands_finished lib s =
     (Inr (),
      s\<lparr>sock := \<lparr>inbound = rest, arriving = arriving (sock s),
                  outbound = outbound (sock s) @ [20, 3, 3, 0, 1, 1] @ [22, 3, 3, 0, 40]
                               @ get_random_bytes 8 @ ciphertext @ tag\<rparr>,
        client_seq_num := client_seq_num s + 1,
        server_seq_num := server_seq_num s + 1,
        handshake_log := handshake_log s @ (0x14 # a # b # c # body)
                           @ get_random_bytes 8 @ ciphertext @ tag\<rparr>)"
proof -
  let ?s1 = "s\<lparr>sock := (sock s)\<lparr>inbound := 0x16 # w1 # w0 # m1 # m0 # payload @ rest\<rparr>\<rparr>"
  let ?s2 = "?s1\<lparr>sock := (sock ?s1)\<lparr>inbound := rest\<rparr>,
                  client_seq_num := client_seq_num ?s1 + 1,
                  handshake_log := handshake_log ?s1 @ 0x14 # a # b # c # body\<rparr>"
  let ?s3 = "?s2\<lparr>sock := (sock ?s2)\<lparr>outbound := outbound (sock ?s2) @ [20, 3, 3, 0, 1, 1]\<rparr>\<rparr>"
  let ?vd = "tls_prf lib (master_secret keys) (ascii ''server finished'')
               (digest_bytes (sha256_digest lib (handshake_log ?s3))) 12"
  have 1: "read_record CHANGE_CIPHER_SPEC_CONTENT_TYPE s =
             (Inr \<lparr>rec_content_type = CHANGE_CIPHER_SPEC_CONTENT_TYPE,
                    rec_version = unat v1 * 256 + unat v0, rec_data = ccs\<rparr>, ?s1)"
    using read_record_header [OF i lc, of CHANGE_CIPHER_SPEC_CONTENT_TYPE] by simp
  have 2: "read_handshake_record lib FINISHED_HANDSHAKE_TYPE True ?s1 =
             (Inr \<lparr>hs_type = FINISHED_HANDSHAKE_TYPE, hs_data = take (from_bytes [a, b, c]) body\<rparr>,
              ?s2)"
    using read_encrypted_handshake [of ?s1 "0x16" w1 w0 m1 m0 payload rest keys ad lib
            "0x14" a b c body FINISHED_HANDSHAKE_TYPE] lp k ad d
    by simp
  have 3: "write_record \<lparr>rec_content_type = CHANGE_CIPHER_SPEC_CONTENT_TYPE,
                          rec_version = VERSION, rec_data = [0x01]\<rparr> ?s2 = (Inr (), ?s3)"
    by (rule write_change_cipher_spec)
  have 4: "get_server_finished lib ?s3 = (Inr ?vd, ?s3)"
    using k by (intro get_server_finished_eq) simp
  have 5: "write_handshake_record lib
             \<lparr>hs_type = FINISHED_HANDSHAKE_TYPE, hs_data = ?vd\<rparr> True ?s3 =
     (Inr (),
      ?s3\<lparr>sock := (sock ?s3)\<lparr>outbound := outbound (sock ?s3) @ [22, 3, 3, 0, 40]
                                          @ get_random_bytes 8 @ ciphertext @ tag\<rparr>,
          server_seq_num := server_seq_num ?s3 + 1,
          handshake_log := handshake_log ?s3 @ get_random_bytes 8 @ ciphertext @ tag\<rparr>)"
    using k sq e by (intro write_encrypted_finished [OF contract]) simp_all
  have "shake_hands_finished lib s =
     (Inr (),
      ?s3\<lparr>sock := (sock ?s3)\<lparr>outbound := outbound (sock ?s3) @ [22, 3, 3, 0, 40]
                                          @ get_random_bytes 8 @ ciphertext @ tag\<rparr>,
          server_seq_num := server_seq_num ?s3 + 1,
          handshake_log := handshake_log ?s3 @ get_random_bytes 8 @ ciphertext @ tag\<rparr>)"
    unfolding shake_hands_finished_def
    by (simp only: tls_bind_def 1 2 3 4 5 prod.case sum.case)
  then show ?thesis by simp
qed

subsection \<open>Plain handshake records\<close>

lemma read_plain_handshake:
  assumes i: "inbound (sock s) = c0 # w1 # w0 # m1 # m0 # msg @ rest"
    and c0: "unat c0 = HANDSHAKE_CONTENT_TYPE"
    and l: "length msg = unat m1 * 256 + unat m0"
    and m: "msg = t # a # b # c # body"
  shows "read_handshake_record lib expected_type False s =
     (if unat t = expected_type
      then Inr \<lparr>hs_type = unat t, hs_data = take (from_bytes [a, b, c]) body\<rparr>
      else Inl (UnexpectedHandshakeType (unat t) expected_type),
      s\<lparr>sock := (sock s)\<lparr>inbound := rest\<rparr>,
        handshake_log := handshake_log s @ msg\<rparr>)"
proof -
  let ?s1 = "s\<lparr>sock := (sock s)\<lparr>inbound := rest\<rparr>\<rparr>"
  have r: "read_record HANDSHAKE_CONTENT_TYPE s =
             (Inr \<lparr>rec_content_type = HANDSHAKE_CONTENT_TYPE,
                    rec_version = unat w1 * 256 + unat w0, rec_data = msg\<rparr>, ?s1)"
    using c0 read_record_header [OF i l, of HANDSHAKE_CONTENT_TYPE] by simp
  show ?thesis
    unfolding read_handshake_record_def tls_bind_def r
    by (simp add: m tls_modify_def tls_lift_def
          unpack_I_def header_type header_len tls_return_def tls_raise_def slice_def Let_def)
qed

lemma write_plain_handshake:
  assumes "struct_pack [(4, push_bit 24 t OR length d)] = Inr packed"
    and "struct_pack [(1, HANDSHAKE_CONTENT_TYPE), (2, VERSION), (2, length (packed @ d))] = Inr header"
  shows "write_handshake_record lib \<lparr>hs_type = t, hs_data = d\<rparr> False s =
     (Inr (),
      s\<lparr>sock := (sock s)\<lparr>outbound := outbound (sock s) @ header @ packed @ d\<rparr>,
        handshake_log := handshake_log s @ packed @ d\<rparr>)"
  using assms
  by (simp add: write_handshake_record_def tls_bind_def tls_lift_def tls_modify_def
        tls_return_def write_record_def send_def Let_def del: struct_pack.simps)

lemma get_server_hello_eq:
  assumes "length (session_id s) < 256"
  shows "get_server_hello s =
     (Inr ([3, 3] @ server_random s @ be_bytes 1 (length (session_id s)) @ session_id s
           @ [0, 0x9C, 0, 0, 0]), s)"
  using assms by (simp add: get_server_hello_def tls_m_defs be_bytes_numeral(1-3))

lemma get_certificate_none:
  "certs s = [] \<Longrightarrow> get_certificate s = (Inr [0, 0, 0], s)"
  by (simp add: get_certificate_def tls_m_defs int16_to_int24_bytes_def be_bytes_numeral(1-3))

subsection \<open>The demonstration handshake\<close>

lemma demo_state_progress: "demo_state bs = demo_progress bs [] [] None 0 0"
  by (simp add: demo_state_def demo_delivery_def initial_state_def demo_progress_def
        get_random_bytes_def)

lemma length_demo_session_id: "length demo_session_id = 32"
  by (simp add: demo_session_id_def ascii_def)

lemma demo_client_hello:
  "read_handshake_record toy_crypto 0x1 False (demo_progress
       ([22, 3, 3, 0, 38] @ demo_client_hello_msg @ rest) [] [] None 0 0) =
     (Inr \<lparr>hs_type = 0x1, hs_data = [3, 3] @ replicate 32 0x11\<rparr>,
      demo_progress rest [] demo_client_hello_msg None 0 0)"
  using read_plain_handshake [of "demo_progress
       ([22, 3, 3, 0, 38] @ demo_client_hello_msg @ rest) [] [] None 0 0"
       22 3 3 0 38 demo_client_hello_msg rest 1 0 0 34 "[3, 3] @ replicate 32 0x11"
       toy_crypto 1]
  by (simp add: demo_progress_def demo_client_hello_msg_def from_bytes_def)

lemma demo_server_hello:
  "get_server_hello (demo_progress inb outb log keys cseq sseq) =
     (Inr ([3, 3] @ replicate 32 0x41 @ [32] @ demo_session_id @ [0, 0x9C, 0, 0, 0]),
      demo_progress inb outb log keys cseq sseq)"
  using get_server_hello_eq [of "demo_progress inb outb log keys cseq sseq"]
  by (simp add: demo_progress_def length_demo_session_id be_bytes_numeral(1-3))

lemma demo_write_server_hello:
  "write_handshake_record toy_crypto
     \<lparr>hs_type = 0x2, hs_data = [3, 3] @ replicate 32 0x41 @ [32] @ demo_session_id
                                 @ [0, 0x9C, 0, 0, 0]\<rparr> False
     (demo_progress inb outb log keys cseq sseq) =
   (Inr (), demo_progress inb (outb @ [22, 3, 3, 0, 76] @ demo_server_hello_msg)
              (log @ demo_server_hello_msg) keys cseq sseq)"
  using write_plain_handshake [of 2 "[3, 3] @ replicate 32 0x41 @ [32] @ demo_session_id
                                 @ [0, 0x9C, 0, 0, 0]" "[2, 0, 0, 72]" "[22, 3, 3, 0, 76]"
          toy_crypto "demo_progress inb outb log keys cseq sseq"]
  by (simp add: demo_progress_def demo_server_hello_msg_def length_demo_session_id
        be_bytes_numeral(1-3) numeral_2_eq_2 [symmetric])

lemma demo_write_certificate:
  "write_handshake_record toy_crypto \<lparr>hs_type = 0xb, hs_data = [0, 0, 0]\<rparr> False
     (demo_progress inb outb log keys cseq sseq) =
   (Inr (), demo_progress inb (outb @ [22, 3, 3, 0, 7] @ demo_certificate_msg)
              (log @ demo_certificate_msg) keys cseq sseq)"
  using write_plain_handshake [of 11 "[0, 0, 0]" "[11, 0, 0, 3]" "[22, 3, 3, 0, 7]"
          toy_crypto "demo_progress inb outb log keys cseq sseq"]
  by (simp add: demo_progress_def demo_certificate_msg_def be_bytes_numeral(1-3)
        numeral_2_eq_2 [symmetric])

lemma demo_write_hello_done:
  "write_handshake_record toy_crypto \<lparr>hs_type = 0xe, hs_data = []\<rparr> False
     (demo_progress inb outb log keys cseq sseq) =
   (Inr (), demo_progress inb (outb @ [22, 3, 3, 0, 4] @ demo_hello_done_msg)
              (log @ demo_hello_done_msg) keys cseq sseq)"
  using write_plain_handshake [of 14 "[]" "[14, 0, 0, 0]" "[22, 3, 3, 0, 4]"
          toy_crypto "demo_progress inb outb log keys cseq sseq"]
  by (simp add: demo_progress_def demo_hello_done_msg_def be_bytes_numeral(1-3)
        numeral_2_eq_2 [symmetric])

lemma demo_key_exchange:
  "read_handshake_record toy_crypto 0x10 False (demo_progress
       ([22, 3, 3, 2, 6] @ demo_key_exchange_msg @ rest) outb log None 0 0) =
     (Inr \<lparr>hs_type = 0x10, hs_data = [2, 0] @ demo_block\<rparr>,
      demo_progress rest outb (log @ demo_key_exchange_msg) None 0 0)"
  using read_plain_handshake [of "demo_progress
       ([22, 3, 3, 2, 6] @ demo_key_exchange_msg @ rest) outb log None 0 0"
       22 3 3 2 6 demo_key_exchange_msg rest "0x10" 0 2 2 "[2, 0] @ demo_block"
       toy_crypto "0x10"]
  by (simp add: demo_progress_def demo_key_exchange_msg_def from_bytes_def length_demo_block)

lemma demo_get_certificate:
  "get_certificate (demo_progress inb outb log keys cseq sseq) =
     (Inr [0, 0, 0], demo_progress inb outb log keys cseq sseq)"
  by (rule get_certificate_none) (simp add: demo_progress_def)

text \<open>The handshake up to the server's first flight, on the demonstration
  ClientHello: what is left is the key exchange.\<close>

lemma demo_hello_flight:
  "shake_hands_keys toy_crypto
     (demo_progress ([22, 3, 3, 0, 38] @ demo_client_hello_msg @ rest) [] [] None 0 0) =
   tls_bind (read_handshake_record toy_crypto 0x10 False) (\<lambda>key_exchange.
   tls_bind (derive_keys toy_crypto (drop 2 (hs_data key_exchange)) (replicate 32 0x11)) (\<lambda>keys.
   tls_modify (\<lambda>s. s\<lparr>session_keys := Some keys\<rparr>)))
     (demo_progress rest demo_first_flight
        (demo_client_hello_msg @ demo_server_hello_msg @ demo_certificate_msg
         @ demo_hello_done_msg) None 0 0)"
proof -
  note 1 = demo_client_hello [of rest]
  have sl: "slice 2 (2 + 32) (hs_data \<lparr>hs_type = 0x1, hs_data = [3, 3] @ replicate 32 0x11\<rparr>) =
              replicate 32 0x11"
    by (simp add: slice_def)
  show ?thesis
    unfolding shake_hands_keys_def
    apply (simp only: tls_bind_def 1 prod.case sum.case Let_def sl demo_server_hello
             demo_write_server_hello demo_get_certificate demo_write_certificate
             demo_write_hello_done)
    apply (simp add: slice_def demo_first_flight_def)
    done
qed

lemma read_handshake_closed:
  "inbound (sock s) = [] \<Longrightarrow> arriving (sock s) = [] \<Longrightarrow>
   read_handshake_record lib expected_type decrypt_flag s = (Inl StructError, s)"
  by (simp add: read_handshake_record_def read_record_def tls_m_defs recv_closed unpack_BHH_def)

lemma read_handshake_short_header:
  "inbound (sock s) = [a, b, c] \<Longrightarrow>
   read_handshake_record lib expected_type decrypt_flag s =
     (Inl StructError, s\<lparr>sock := (sock s)\<lparr>inbound := []\<rparr>\<rparr>)"
  using recv_waiting [of s 5]
  by (simp add: read_handshake_record_def read_record_def tls_m_defs unpack_BHH_def)

subsection \<open>The transcript\<close>

lemma demo_finished_encryption:
  "encrypt_and_digest toy_crypto (server_key demo_keys) (server_salt demo_keys @ get_random_bytes 8)
     (be_bytes 8 (server_seq_num (demo_keyed_state [])) @ [22, 3, 3, 0, 16])
     ([20, 0, 0, 12] @ replicate 12 7) =
   ([88, 76, 76, 64, 75, 75, 75, 75, 75, 75, 75, 75, 75, 75, 75, 75],
    [0, 0, 0, 0, 0, 0, 0, 0, 0, 0, 0, 0, 0, 0, 7, 44])"
  by (simp add: demo_defs toy_defs replicate_eval numeral_2_eq_2 [symmetric])

text \<open>
  C2.  The claim has every handshake message enter the transcript as plaintext,
  before encryption for a message that is sent encrypted, so that the transcript
  never holds AEAD ciphertext.  \<open>read_handshake_record\<close> does so for received
  messages: it decrypts, then appends.  \<open>write_handshake_record\<close> encrypts first
  and appends the result.  Evaluated on a Finished message with twelve bytes
  \<open>0x07\<close> of verify data, written encrypted by an object that holds \<open>demo_keys\<close>
  and has an empty transcript, the transcript afterwards is the 40 bytes of the
  record's payload, explicit nonce, ciphertext and tag, and not the 16 bytes of
  the message.
\<close>

theorem write_handshake_record_logs_ciphertext:
  "write_handshake_record toy_crypto
     \<lparr>hs_type = FINISHED_HANDSHAKE_TYPE, hs_data = replicate 12 7\<rparr> True (demo_keyed_state []) =
   (Inr (),
    (demo_keyed_state [])
      \<lparr>sock := \<lparr>inbound = [], arriving = [],
                 outbound = [22, 3, 3, 0, 40] @ replicate 8 0x41
                   @ [88, 76, 76, 64, 75, 75, 75, 75, 75, 75, 75, 75, 75, 75, 75, 75]
                   @ [0, 0, 0, 0, 0, 0, 0, 0, 0, 0, 0, 0, 0, 0, 7, 44]\<rparr>,
        server_seq_num := 1,
        handshake_log := replicate 8 0x41
                   @ [88, 76, 76, 64, 75, 75, 75, 75, 75, 75, 75, 75, 75, 75, 75, 75]
                   @ [0, 0, 0, 0, 0, 0, 0, 0, 0, 0, 0, 0, 0, 0, 7, 44]\<rparr>)
 \<and> handshake_log (demo_keyed_state []) = []
 \<and> replicate 8 0x41 @ [88, 76, 76, 64, 75, 75, 75, 75, 75, 75, 75, 75, 75, 75, 75, 75]
      @ [0, 0, 0, 0, 0, 0, 0, 0, 0, 0, 0, 0, 0, 0, 7, 44]
    \<noteq> [20, 0, 0, 12] @ replicate 12 (7 :: byte)"
proof -
  have k: "session_keys (demo_keyed_state []) = Some demo_keys"
    and q: "server_seq_num (demo_keyed_state []) < 2 ^ 64"
    and l: "length (replicate 12 (7 :: byte)) = 12"
    by (simp_all add: demo_defs)
  have s: "sock (demo_keyed_state []) = \<lparr>inbound = [], arriving = [], outbound = []\<rparr>"
    and n: "server_seq_num (demo_keyed_state []) = 0"
    and h: "handshake_log (demo_keyed_state []) = []"
    by (simp_all add: demo_defs)
  note w = write_encrypted_finished [OF toy_aead_contract k q l demo_finished_encryption]
  show ?thesis
    unfolding w by (simp add: s n h get_random_bytes_def replicate_eval)
qed

subsection \<open>Nothing is random, and the delivery decides\<close>

lemma encrypt_nonce:
  assumes "encrypt lib dat tls_type s = (Inr payload, s1)"
  shows "take 8 payload = replicate 8 0x41
       \<and> (\<exists>keys ad. session_keys s = Some keys
            \<and> to_ad (server_seq_num s) tls_type VERSION (length dat) = Inr ad
            \<and> drop 8 payload =
                fst (encrypt_and_digest lib (server_key keys)
                       (server_salt keys @ replicate 8 0x41) ad dat)
              @ snd (encrypt_and_digest lib (server_key keys)
                       (server_salt keys @ replicate 8 0x41) ad dat))"
  using assms
  by (auto simp: encrypt_eq get_random_bytes_def split: option.splits sum.splits)

lemma demo_initial_state:
  "initial_state \<lparr>inbound = bs, arriving = pieces, outbound = []\<rparr> demo_key [] demo_session_id =
     demo_delivery bs pieces"
  by (simp add: demo_delivery_def)

lemma demo_delivery_progress: "demo_delivery bs [] = demo_progress bs [] [] None 0 0"
  using demo_state_progress [of bs] by (simp add: demo_state_def)

lemma demo_hello_only:
  "shake_hands toy_crypto (demo_delivery ([22, 3, 3, 0, 38] @ demo_client_hello_msg) []) =
     (Inl StructError,
      demo_progress [] demo_first_flight
        (demo_client_hello_msg @ demo_server_hello_msg @ demo_certificate_msg
         @ demo_hello_done_msg) None 0 0)"
proof -
  let ?s = "demo_progress [] demo_first_flight
        (demo_client_hello_msg @ demo_server_hello_msg @ demo_certificate_msg
         @ demo_hello_done_msg) None 0 0"
  have r: "read_handshake_record toy_crypto 0x10 False ?s = (Inl StructError, ?s)"
    by (rule read_handshake_closed) (simp_all add: demo_progress_def)
  have "shake_hands_keys toy_crypto
          (demo_progress ([22, 3, 3, 0, 38] @ demo_client_hello_msg @ []) [] [] None 0 0) =
        (Inl StructError, ?s)"
    unfolding demo_hello_flight by (simp add: tls_bind_def r)
  then show ?thesis
    by (simp add: shake_hands_def tls_bind_def demo_delivery_progress)
qed

lemma demo_hello_split:
  "shake_hands toy_crypto (demo_delivery [22, 3, 3] [[0, 38] @ demo_client_hello_msg]) =
     (Inl StructError, demo_delivery [] [[0, 38] @ demo_client_hello_msg])"
proof -
  let ?s = "demo_delivery [22, 3, 3] [[0, 38] @ demo_client_hello_msg]"
  have "read_handshake_record toy_crypto 0x1 False ?s =
          (Inl StructError, ?s\<lparr>sock := (sock ?s)\<lparr>inbound := []\<rparr>\<rparr>)"
    by (rule read_handshake_short_header) (simp add: demo_delivery_sock)
  then have r: "read_handshake_record toy_crypto 0x1 False ?s =
          (Inl StructError, demo_delivery [] [[0, 38] @ demo_client_hello_msg])"
    by (simp only: demo_delivery_sock)
  show ?thesis
    by (simp only: shake_hands_def shake_hands_keys_def tls_bind_def r prod.case sum.case)
qed

text \<open>
  C10.  The claim has the bytes the server writes be a function of the bytes the
  client sends, given the key, the certificates and the session id.  Evaluated
  on one client input, a ClientHello record after which the client closes, under
  two deliveries: when the 43 bytes have all been received before the handshake
  starts, the server writes the 102 bytes of its first flight and then fails on
  the missing key exchange; when three bytes have been received and the other 40
  arrive later, \<^verbatim>\<open>recv(5)\<close> returns the three, unpacking the header fails, and the
  server has written nothing.
\<close>

theorem delivery_changes_output:
  "[22, 3, 3] @ concat [[0, 38] @ demo_client_hello_msg] = [22, 3, 3, 0, 38] @ demo_client_hello_msg
 \<and> TLS_init toy_crypto
      \<lparr>inbound = [22, 3, 3, 0, 38] @ demo_client_hello_msg, arriving = [], outbound = []\<rparr>
      demo_key [] demo_session_id =
    (Inl StructError,
     demo_progress [] demo_first_flight
       (demo_client_hello_msg @ demo_server_hello_msg @ demo_certificate_msg
        @ demo_hello_done_msg) None 0 0)
 \<and> TLS_init toy_crypto
      \<lparr>inbound = [22, 3, 3], arriving = [[0, 38] @ demo_client_hello_msg], outbound = []\<rparr>
      demo_key [] demo_session_id =
    (Inl StructError, demo_delivery [] [[0, 38] @ demo_client_hello_msg])
 \<and> outbound (sock (demo_progress [] demo_first_flight
       (demo_client_hello_msg @ demo_server_hello_msg @ demo_certificate_msg
        @ demo_hello_done_msg) None 0 0)) = demo_first_flight
 \<and> outbound (sock (demo_delivery [] [[0, 38] @ demo_client_hello_msg])) = []
 \<and> length demo_first_flight = 102"
proof -
  have l: "length demo_first_flight = 102"
    by (simp add: demo_first_flight_def demo_server_hello_msg_def demo_certificate_msg_def
          demo_hello_done_msg_def length_demo_session_id)
  have o: "outbound (sock (demo_delivery [] [[0, 38] @ demo_client_hello_msg])) = []"
    by (simp add: demo_delivery_def initial_state_def)
  have c: "[22, 3, 3] @ concat [[0, 38] @ demo_client_hello_msg] =
             [22, 3, 3, 0, 38] @ demo_client_hello_msg"
    by simp
  have a: "TLS_init toy_crypto
      \<lparr>inbound = [22, 3, 3, 0, 38] @ demo_client_hello_msg, arriving = [], outbound = []\<rparr>
      demo_key [] demo_session_id =
    (Inl StructError,
     demo_progress [] demo_first_flight
       (demo_client_hello_msg @ demo_server_hello_msg @ demo_certificate_msg
        @ demo_hello_done_msg) None 0 0)"
    by (simp only: TLS_init_def demo_initial_state demo_hello_only)
  have b: "TLS_init toy_crypto
      \<lparr>inbound = [22, 3, 3], arriving = [[0, 38] @ demo_client_hello_msg], outbound = []\<rparr>
      demo_key [] demo_session_id =
    (Inl StructError, demo_delivery [] [[0, 38] @ demo_client_hello_msg])"
    by (simp only: TLS_init_def demo_initial_state demo_hello_split)
  have f: "outbound (sock (demo_progress [] demo_first_flight
       (demo_client_hello_msg @ demo_server_hello_msg @ demo_certificate_msg
        @ demo_hello_done_msg) None 0 0)) = demo_first_flight"
    by (simp add: demo_progress_def)
  show ?thesis
    by (intro conjI) (rule c a b f o l)+
qed

subsection \<open>The demonstration handshake, to its end\<close>

lemma byte_sum_replicate: "byte_sum (replicate n b) = n * unat b"
  by (induction n) (simp_all add: byte_sum_simps)

lemma demo_master_secret:
  "tls_prf toy_crypto (replicate 48 0x22) (ascii ''master secret'')
     (replicate 32 0x11 @ replicate 32 0x41) 48 =
   [0, 0, 0, 0, 0, 56, 51, 0, 0, 0, 0, 0, 0, 0, 0, 0, 0, 3, 131, 48, 0, 0, 0, 0,
    0, 0, 0, 0, 0, 0, 56, 51, 0, 0, 0, 0, 0, 58, 133, 0, 0, 0, 0, 0, 0, 0, 0, 0]"
  by (simp add: tls_prf_def prf_loop.simps toy_defs byte_sum_replicate)

lemma demo_key_block:
  "tls_prf toy_crypto
     [0, 0, 0, 0, 0, 56, 51, 0, 0, 0, 0, 0, 0, 0, 0, 0, 0, 3, 131, 48, 0, 0, 0, 0,
      0, 0, 0, 0, 0, 0, 56, 51, 0, 0, 0, 0, 0, 58, 133, 0, 0, 0, 0, 0, 0, 0, 0, 0]
     (ascii ''key expansion'') (replicate 32 0x41 @ replicate 32 0x11) 40 =
   [0, 0, 0, 0, 0, 51, 151, 0, 0, 0, 0, 0, 0, 0, 0, 0,
    0, 3, 57, 112, 0, 0, 0, 0, 0, 0, 0, 0, 0, 0, 51, 151,
    0, 0, 0, 0, 0, 55, 18, 0]"
  by (simp add: tls_prf_def prf_loop.simps toy_defs byte_sum_replicate)

lemma demo_key_schedule:
  "key_schedule toy_crypto (replicate 48 0x22) (replicate 32 0x11) (replicate 32 0x41) =
     demo_session_keys"
  unfolding key_schedule_def Let_def demo_master_secret demo_key_block
  by (simp add: demo_session_keys_def)

lemma demo_derive_keys:
  "derive_keys toy_crypto demo_block (replicate 32 0x11)
     (demo_progress inb outb log keys cseq sseq) =
   (Inr demo_session_keys, demo_progress inb outb log keys cseq sseq)"
proof -
  have p: "priv_key (demo_progress inb outb log keys cseq sseq) = demo_key"
    and r: "server_random (demo_progress inb outb log keys cseq sseq) = replicate 32 0x41"
    by (simp_all add: demo_progress_def)
  have 1: "py_pow (from_bytes demo_block)
             (rsa_d (priv_key (demo_progress inb outb log keys cseq sseq)))
             (rsa_n (priv_key (demo_progress inb outb log keys cseq sseq))) =
           Inr (from_bytes demo_block)"
    unfolding p by (rule demo_rsa [OF length_demo_block])
  have 2: "to_bytes KEY_LENGTH (from_bytes demo_block) = Inr demo_block"
    by (rule to_bytes_from_bytes [OF length_demo_block])
  show ?thesis
    unfolding derive_keys_unpad [OF length_demo_block 1 2] unpad_demo_block r
    by (simp only: sum.case demo_key_schedule)
qed

lemma demo_keys_run:
  "shake_hands_keys toy_crypto
     (demo_progress ([22, 3, 3, 0, 38] @ demo_client_hello_msg
                     @ [22, 3, 3, 2, 6] @ demo_key_exchange_msg @ rest) [] [] None 0 0) =
   (Inr (), demo_progress rest demo_first_flight demo_transcript (Some demo_session_keys) 0 0)"
proof -
  let ?log = "demo_client_hello_msg @ demo_server_hello_msg @ demo_certificate_msg
              @ demo_hello_done_msg"
  have k: "read_handshake_record toy_crypto 0x10 False
             (demo_progress ([22, 3, 3, 2, 6] @ demo_key_exchange_msg @ rest)
                demo_first_flight ?log None 0 0) =
           (Inr \<lparr>hs_type = 0x10, hs_data = [2, 0] @ demo_block\<rparr>,
            demo_progress rest demo_first_flight (?log @ demo_key_exchange_msg) None 0 0)"
    by (rule demo_key_exchange)
  have d: "drop 2 (hs_data \<lparr>hs_type = 0x10, hs_data = [2, 0] @ demo_block\<rparr>) = demo_block"
    by simp
  have m: "tls_modify (\<lambda>s. s\<lparr>session_keys := Some demo_session_keys\<rparr>)
             (demo_progress rest demo_first_flight (?log @ demo_key_exchange_msg) None 0 0) =
           (Inr (), demo_progress rest demo_first_flight demo_transcript
                      (Some demo_session_keys) 0 0)"
    by (simp add: tls_modify_def demo_progress_def demo_transcript_def)
  show ?thesis
    unfolding demo_hello_flight
    by (simp only: tls_bind_def k d m prod.case sum.case demo_derive_keys)
qed

lemma demo_transcript_sums:
  "byte_sum demo_transcript = 124383" "length demo_transcript = 643"
  by (simp_all add: demo_transcript_def demo_client_hello_msg_def demo_server_hello_msg_def
        demo_certificate_msg_def demo_hello_done_msg_def demo_key_exchange_msg_def demo_block_def
        demo_session_id_def ascii_def byte_sum_simps byte_sum_replicate)

text \<open>What the specification expects in the client's Finished of this handshake.\<close>

lemma demo_expected_client_finished:
  "tls_prf toy_crypto (master_secret demo_session_keys) (ascii ''client finished'')
     (digest_bytes (sha256_digest toy_crypto demo_transcript)) 12 =
   [0, 0, 0, 0, 0, 42, 160, 0, 0, 0, 0, 0]"
  by (simp add: tls_prf_def prf_loop.simps toy_defs demo_session_keys_def demo_transcript_sums)

lemma demo_server_verify_data:
  "tls_prf toy_crypto (master_secret demo_session_keys) (ascii ''server finished'')
     (digest_bytes (sha256_digest toy_crypto
        (demo_transcript @ 0x14 # 0 # 0 # 12 # [0, 0, 0, 0, 0, 0, 0, 0, 0, 0, 0, 0]))) 12 =
   [0, 0, 0, 0, 0, 38, 59, 0, 0, 0, 0, 0]"
  by (simp add: tls_prf_def prf_loop.simps toy_defs demo_session_keys_def demo_transcript_sums)

lemma demo_client_finished_opens:
  "decrypt_and_verify toy_crypto (client_key demo_session_keys)
     (client_salt demo_session_keys @ take 8 demo_client_finished_payload)
     [0, 0, 0, 0, 0, 0, 0, 0, 22, 3, 3, 0, 16]
     (drop 8 (take (length demo_client_finished_payload - 16) demo_client_finished_payload))
     (drop (length demo_client_finished_payload - 16) demo_client_finished_payload) =
   Some (0x14 # 0 # 0 # 12 # [0, 0, 0, 0, 0, 0, 0, 0, 0, 0, 0, 0])"
  by (simp add: demo_client_finished_payload_def demo_session_keys_def toy_defs)

lemma demo_server_finished_seals:
  "encrypt_and_digest toy_crypto (server_key demo_session_keys)
     (server_salt demo_session_keys @ get_random_bytes 8)
     (be_bytes 8 0 @ [22, 3, 3, 0, 16])
     ([20, 0, 0, 12] @ [0, 0, 0, 0, 0, 38, 59, 0, 0, 0, 0, 0]) =
   ([211, 199, 199, 203, 199, 199, 199, 199, 199, 225, 252, 199, 199, 199, 199, 199],
    [0, 0, 0, 0, 0, 0, 0, 0, 0, 0, 0, 0, 0, 0, 16, 194])"
  by (simp add: demo_session_keys_def get_random_bytes_def toy_defs replicate_eval)

lemma demo_await_fields:
  "client_seq_num demo_await_finished = 0"
  "server_seq_num demo_await_finished = 0"
  "handshake_log demo_await_finished = demo_transcript"
  "sock demo_await_finished =
     \<lparr>inbound = [20, 3, 3, 0, 1, 1] @ [22, 3, 3, 0, 40] @ demo_client_finished_payload,
      arriving = [], outbound = demo_first_flight\<rparr>"
  by (simp_all add: demo_await_finished_def demo_progress_def)

lemma length_demo_client_finished_payload: "length demo_client_finished_payload = 40"
  by (simp add: demo_client_finished_payload_def)

text \<open>The hypotheses of the second half of the handshake, on the demonstration
  object: the keys, the two records on the stream, the additional data, the
  decryption of the client's Finished and the encryption of the server's.\<close>

lemma demo_await:
  "session_keys demo_await_finished = Some demo_session_keys"
  "server_seq_num demo_await_finished < 2 ^ 64"
  "inbound (sock demo_await_finished) =
     0x14 # 3 # 3 # 0 # 1 # [1] @ 0x16 # 3 # 3 # 0 # 40 # demo_client_finished_payload @ []"
  "length [1 :: byte] = unat (0 :: byte) * 256 + unat (1 :: byte)"
  "length demo_client_finished_payload = unat (0 :: byte) * 256 + unat (40 :: byte)"
  "to_ad (client_seq_num demo_await_finished) HANDSHAKE_CONTENT_TYPE
     (unat (3 :: byte) * 256 + unat (3 :: byte))
     (length (drop 8 (take (length demo_client_finished_payload - 16)
                        demo_client_finished_payload))) =
   Inr [0, 0, 0, 0, 0, 0, 0, 0, 22, 3, 3, 0, 16]"
  "decrypt_and_verify toy_crypto (client_key demo_session_keys)
     (client_salt demo_session_keys @ take 8 demo_client_finished_payload)
     [0, 0, 0, 0, 0, 0, 0, 0, 22, 3, 3, 0, 16]
     (drop 8 (take (length demo_client_finished_payload - 16) demo_client_finished_payload))
     (drop (length demo_client_finished_payload - 16) demo_client_finished_payload) =
   Some (0x14 # 0 # 0 # 12 # [0, 0, 0, 0, 0, 0, 0, 0, 0, 0, 0, 0])"
  "encrypt_and_digest toy_crypto (server_key demo_session_keys)
     (server_salt demo_session_keys @ get_random_bytes 8)
     (be_bytes 8 (server_seq_num demo_await_finished) @ [22, 3, 3, 0, 16])
     ([20, 0, 0, 12] @
      tls_prf toy_crypto (master_secret demo_session_keys) (ascii ''server finished'')
        (digest_bytes (sha256_digest toy_crypto
           (handshake_log demo_await_finished
            @ 0x14 # 0 # 0 # 12 # [0, 0, 0, 0, 0, 0, 0, 0, 0, 0, 0, 0]))) 12) =
   ([211, 199, 199, 203, 199, 199, 199, 199, 199, 225, 252, 199, 199, 199, 199, 199],
    [0, 0, 0, 0, 0, 0, 0, 0, 0, 0, 0, 0, 0, 0, 16, 194])"
proof -
  show "session_keys demo_await_finished = Some demo_session_keys"
    by (simp add: demo_await_finished_def demo_progress_def)
  show "server_seq_num demo_await_finished < 2 ^ 64"
    by (simp add: demo_await_fields)
  show "inbound (sock demo_await_finished) =
     0x14 # 3 # 3 # 0 # 1 # [1] @ 0x16 # 3 # 3 # 0 # 40 # demo_client_finished_payload @ []"
    by (simp add: demo_await_fields)
  show "length [1 :: byte] = unat (0 :: byte) * 256 + unat (1 :: byte)"
    by simp
  show "length demo_client_finished_payload = unat (0 :: byte) * 256 + unat (40 :: byte)"
    by (simp add: length_demo_client_finished_payload)
  show "to_ad (client_seq_num demo_await_finished) HANDSHAKE_CONTENT_TYPE
     (unat (3 :: byte) * 256 + unat (3 :: byte))
     (length (drop 8 (take (length demo_client_finished_payload - 16)
                        demo_client_finished_payload))) =
   Inr [0, 0, 0, 0, 0, 0, 0, 0, 22, 3, 3, 0, 16]"
    by (simp add: demo_await_fields length_demo_client_finished_payload to_ad_eq
          be_bytes_numeral(1-3))
  show "decrypt_and_verify toy_crypto (client_key demo_session_keys)
     (client_salt demo_session_keys @ take 8 demo_client_finished_payload)
     [0, 0, 0, 0, 0, 0, 0, 0, 22, 3, 3, 0, 16]
     (drop 8 (take (length demo_client_finished_payload - 16) demo_client_finished_payload))
     (drop (length demo_client_finished_payload - 16) demo_client_finished_payload) =
   Some (0x14 # 0 # 0 # 12 # [0, 0, 0, 0, 0, 0, 0, 0, 0, 0, 0, 0])"
    by (rule demo_client_finished_opens)
  show "encrypt_and_digest toy_crypto (server_key demo_session_keys)
     (server_salt demo_session_keys @ get_random_bytes 8)
     (be_bytes 8 (server_seq_num demo_await_finished) @ [22, 3, 3, 0, 16])
     ([20, 0, 0, 12] @
      tls_prf toy_crypto (master_secret demo_session_keys) (ascii ''server finished'')
        (digest_bytes (sha256_digest toy_crypto
           (handshake_log demo_await_finished
            @ 0x14 # 0 # 0 # 12 # [0, 0, 0, 0, 0, 0, 0, 0, 0, 0, 0, 0]))) 12) =
   ([211, 199, 199, 203, 199, 199, 199, 199, 199, 225, 252, 199, 199, 199, 199, 199],
    [0, 0, 0, 0, 0, 0, 0, 0, 0, 0, 0, 0, 0, 0, 16, 194])"
    unfolding demo_await_fields demo_server_verify_data
    by (rule demo_server_finished_seals)
qed

lemma demo_established_eq:
  "demo_await_finished
     \<lparr>sock := \<lparr>inbound = [], arriving = arriving (sock demo_await_finished),
                outbound = outbound (sock demo_await_finished) @ [20, 3, 3, 0, 1, 1]
                  @ [22, 3, 3, 0, 40] @ get_random_bytes 8
                  @ [211, 199, 199, 203, 199, 199, 199, 199, 199, 225, 252, 199, 199, 199, 199, 199]
                  @ [0, 0, 0, 0, 0, 0, 0, 0, 0, 0, 0, 0, 0, 0, 16, 194]\<rparr>,
      client_seq_num := client_seq_num demo_await_finished + 1,
      server_seq_num := server_seq_num demo_await_finished + 1,
      handshake_log := handshake_log demo_await_finished
                  @ (0x14 # 0 # 0 # 12 # [0, 0, 0, 0, 0, 0, 0, 0, 0, 0, 0, 0])
                  @ get_random_bytes 8
                  @ [211, 199, 199, 203, 199, 199, 199, 199, 199, 225, 252, 199, 199, 199, 199, 199]
                  @ [0, 0, 0, 0, 0, 0, 0, 0, 0, 0, 0, 0, 0, 0, 16, 194]\<rparr> =
   demo_established"
  by (simp add: demo_await_finished_def demo_established_def demo_progress_def
        get_random_bytes_def demo_server_finished_payload_def replicate_eval)

lemma demo_finished_half:
  "shake_hands_finished toy_crypto demo_await_finished = (Inr (), demo_established)"
  unfolding shake_hands_finished_accepts [OF toy_aead_contract demo_await] demo_established_eq
  by (rule refl)

lemma demo_client_finished_read:
  "read_handshake_record toy_crypto FINISHED_HANDSHAKE_TYPE True
     (demo_progress ([22, 3, 3, 0, 40] @ demo_client_finished_payload)
        demo_first_flight demo_transcript (Some demo_session_keys) 0 0) =
   (Inr \<lparr>hs_type = 0x14, hs_data = [0, 0, 0, 0, 0, 0, 0, 0, 0, 0, 0, 0]\<rparr>,
    demo_progress [] demo_first_flight
      (demo_transcript @ [0x14, 0, 0, 12, 0, 0, 0, 0, 0, 0, 0, 0, 0, 0, 0, 0])
      (Some demo_session_keys) 1 0)"
proof -
  let ?s = "demo_progress ([22, 3, 3, 0, 40] @ demo_client_finished_payload)
              demo_first_flight demo_transcript (Some demo_session_keys) 0 0"
  have i: "inbound (sock ?s) = 0x16 # 3 # 3 # 0 # 40 # demo_client_finished_payload @ []"
    and c: "unat (0x16 :: byte) = HANDSHAKE_CONTENT_TYPE"
    and k: "session_keys ?s = Some demo_session_keys"
    and n: "client_seq_num ?s = client_seq_num demo_await_finished"
    by (simp_all add: demo_progress_def demo_await_fields)
  note r = read_encrypted_handshake [OF i c demo_await(5) k demo_await(6) [folded n] demo_await(7),
             of FINISHED_HANDSHAKE_TYPE]
  show ?thesis
    unfolding r by (simp add: demo_progress_def from_bytes_def)
qed

lemma demo_keys_full:
  "shake_hands_keys toy_crypto (demo_delivery demo_client_bytes []) =
     (Inr (), demo_await_finished)"
proof -
  have b: "demo_client_bytes =
             [22, 3, 3, 0, 38] @ demo_client_hello_msg @ [22, 3, 3, 2, 6] @ demo_key_exchange_msg
             @ ([20, 3, 3, 0, 1, 1] @ [22, 3, 3, 0, 40] @ demo_client_finished_payload)"
    by (simp add: demo_client_bytes_def)
  show ?thesis
    unfolding demo_delivery_progress b demo_keys_run demo_await_finished_def by (rule refl)
qed

lemma demo_full_run:
  "TLS_init toy_crypto \<lparr>inbound = demo_client_bytes, arriving = [], outbound = []\<rparr>
     demo_key [] demo_session_id = (Inr (), demo_established)"
  unfolding TLS_init_def demo_initial_state shake_hands_def
  by (simp only: tls_bind_def demo_keys_full prod.case sum.case demo_finished_half)

text \<open>
  C1 (as amended).  When the keys are set and the client's ChangeCipherSpec and
  Finished records have been received, the handshake decrypts the Finished record
  and checks that the decrypted message has handshake type \<open>0x14\<close>, and nothing
  else: it computes no expected client Finished value and compares the received
  body with nothing.  For every decrypted message of type \<open>0x14\<close>, whatever its
  length bytes \<open>a b c\<close> and its body, the handshake appends the message to the
  transcript, writes the server's ChangeCipherSpec and Finished, and returns
  with the object established: both counters advanced by one and no error.
\<close>

theorem finished_not_verified:
  assumes "aead_contract lib"
    and "session_keys s = Some keys"
    and "server_seq_num s < 2 ^ 64"
    and "inbound (sock s) =
              0x14 # v1 # v0 # l1 # l0 # ccs @ 0x16 # w1 # w0 # m1 # m0 # payload @ rest"
    and "length ccs = unat l1 * 256 + unat l0"
    and "length payload = unat m1 * 256 + unat m0"
    and "to_ad (client_seq_num s) HANDSHAKE_CONTENT_TYPE (unat w1 * 256 + unat w0)
               (length (drop 8 (take (length payload - 16) payload))) = Inr ad"
    and "decrypt_and_verify lib (client_key keys) (client_salt keys @ take 8 payload) ad
               (drop 8 (take (length payload - 16) payload)) (drop (length payload - 16) payload)
             = Some (0x14 # a # b # c # body)"
    and "encrypt_and_digest lib (server_key keys) (server_salt keys @ get_random_bytes 8)
              (be_bytes 8 (server_seq_num s) @ [22, 3, 3, 0, 16])
              ([20, 0, 0, 12] @
               tls_prf lib (master_secret keys) (ascii ''server finished'')
                 (digest_bytes (sha256_digest lib (handshake_log s @ 0x14 # a # b # c # body))) 12)
            = (ciphertext, tag)"
  shows "shake_hands_finished lib s =
     (Inr (),
      s\<lparr>sock := \<lparr>inbound = rest, arriving = arriving (sock s),
                  outbound = outbound (sock s) @ [20, 3, 3, 0, 1, 1] @ [22, 3, 3, 0, 40]
                               @ get_random_bytes 8 @ ciphertext @ tag\<rparr>,
        client_seq_num := client_seq_num s + 1,
        server_seq_num := server_seq_num s + 1,
        handshake_log := handshake_log s @ (0x14 # a # b # c # body)
                           @ get_random_bytes 8 @ ciphertext @ tag\<rparr>)"
  by (rule shake_hands_finished_accepts [OF assms])

theorem finished_not_verified_witness:
  "aead_contract toy_crypto
 \<and> session_keys demo_await_finished = Some demo_session_keys
 \<and> server_seq_num demo_await_finished < 2 ^ 64
 \<and> inbound (sock demo_await_finished) =
     0x14 # 3 # 3 # 0 # 1 # [1] @ 0x16 # 3 # 3 # 0 # 40 # demo_client_finished_payload @ []
 \<and> length [1 :: byte] = unat (0 :: byte) * 256 + unat (1 :: byte)
 \<and> length demo_client_finished_payload = unat (0 :: byte) * 256 + unat (40 :: byte)
 \<and> to_ad (client_seq_num demo_await_finished) HANDSHAKE_CONTENT_TYPE
     (unat (3 :: byte) * 256 + unat (3 :: byte))
     (length (drop 8 (take (length demo_client_finished_payload - 16)
                        demo_client_finished_payload))) =
   Inr [0, 0, 0, 0, 0, 0, 0, 0, 22, 3, 3, 0, 16]
 \<and> decrypt_and_verify toy_crypto (client_key demo_session_keys)
     (client_salt demo_session_keys @ take 8 demo_client_finished_payload)
     [0, 0, 0, 0, 0, 0, 0, 0, 22, 3, 3, 0, 16]
     (drop 8 (take (length demo_client_finished_payload - 16) demo_client_finished_payload))
     (drop (length demo_client_finished_payload - 16) demo_client_finished_payload) =
   Some (0x14 # 0 # 0 # 12 # [0, 0, 0, 0, 0, 0, 0, 0, 0, 0, 0, 0])
 \<and> encrypt_and_digest toy_crypto (server_key demo_session_keys)
     (server_salt demo_session_keys @ get_random_bytes 8)
     (be_bytes 8 (server_seq_num demo_await_finished) @ [22, 3, 3, 0, 16])
     ([20, 0, 0, 12] @
      tls_prf toy_crypto (master_secret demo_session_keys) (ascii ''server finished'')
        (digest_bytes (sha256_digest toy_crypto
           (handshake_log demo_await_finished
            @ 0x14 # 0 # 0 # 12 # [0, 0, 0, 0, 0, 0, 0, 0, 0, 0, 0, 0]))) 12) =
   ([211, 199, 199, 203, 199, 199, 199, 199, 199, 225, 252, 199, 199, 199, 199, 199],
    [0, 0, 0, 0, 0, 0, 0, 0, 0, 0, 0, 0, 0, 0, 16, 194])
 \<and> shake_hands_finished toy_crypto demo_await_finished = (Inr (), demo_established)"
proof -
  have r: "shake_hands_finished toy_crypto demo_await_finished = (Inr (), demo_established)"
    unfolding finished_not_verified [OF toy_aead_contract demo_await] demo_established_eq
    by (rule refl)
  show ?thesis
    by (intro conjI) (rule toy_aead_contract demo_await r)+
qed

text \<open>
  The claim as first stated, that a Finished body other than
  \<open>prf(master_secret, "client finished", SHA256(transcript so far), 12)\<close> makes the
  handshake fail, does not hold.  In the demonstration handshake the transcript
  when the client's Finished arrives is \<open>demo_transcript\<close> and the expected value is
  \<open>00 00 00 00 00 2a a0 00 00 00 00 00\<close>; the client's Finished record decrypts to a
  body of twelve zero bytes; and the handshake returns without error, the
  object established.
\<close>

theorem finished_unverified_counterexample:
  "TLS_init toy_crypto \<lparr>inbound = demo_client_bytes, arriving = [], outbound = []\<rparr>
     demo_key [] demo_session_id = (Inr (), demo_established)
 \<and> shake_hands_keys toy_crypto (demo_delivery demo_client_bytes []) =
     (Inr (), demo_await_finished)
 \<and> handshake_log demo_await_finished = demo_transcript
 \<and> session_keys demo_await_finished = Some demo_session_keys
 \<and> read_handshake_record toy_crypto FINISHED_HANDSHAKE_TYPE True
     (demo_progress ([22, 3, 3, 0, 40] @ demo_client_finished_payload)
        demo_first_flight demo_transcript (Some demo_session_keys) 0 0) =
   (Inr \<lparr>hs_type = 0x14, hs_data = [0, 0, 0, 0, 0, 0, 0, 0, 0, 0, 0, 0]\<rparr>,
    demo_progress [] demo_first_flight
      (demo_transcript @ [0x14, 0, 0, 12, 0, 0, 0, 0, 0, 0, 0, 0, 0, 0, 0, 0])
      (Some demo_session_keys) 1 0)
 \<and> tls_prf toy_crypto (master_secret demo_session_keys) (ascii ''client finished'')
     (digest_bytes (sha256_digest toy_crypto demo_transcript)) 12 =
   [0, 0, 0, 0, 0, 42, 160, 0, 0, 0, 0, 0]
 \<and> [0, 0, 0, 0, 0, 0, 0, 0, 0, 0, 0, 0] \<noteq> [0, 0, 0, 0, 0, 42, 160, 0, 0, 0, 0, (0 :: byte)]"
proof -
  have n: "[0, 0, 0, 0, 0, 0, 0, 0, 0, 0, 0, 0] \<noteq> [0, 0, 0, 0, 0, 42, 160, 0, 0, 0, 0, (0 :: byte)]"
    by simp
  show ?thesis
    by (intro conjI)
       (rule demo_full_run demo_keys_full demo_await_fields(3) demo_await(1)
             demo_client_finished_read demo_expected_client_finished n)+
qed

end
